theory Spec2Isabelle
  imports Complex_Main
begin

section \<open>JavaScript values used by the application\<close>

text \<open>
  A value read from \<open>sessionStorage\<close> or from a form control is a string or \<open>null\<close>.
  In a condition, \<open>null\<close> and the empty string are falsy and every other string is truthy.
\<close>

definition truthy :: "string option \<Rightarrow> bool" where
  "truthy v = (case v of None \<Rightarrow> False | Some s \<Rightarrow> s \<noteq> [])"

text \<open>
  Strings are lists of bytes holding well-formed UTF-8, so a character outside ASCII is
  the sequence of its bytes. \<open>white_space\<close> lists the 25 code points that
  \<open>String.prototype.trim\<close> removes and that the class \<^verbatim>\<open>\s\<close> of a regular expression
  matches (the \<open>WhiteSpace\<close> and \<open>LineTerminator\<close> productions of ECMAScript): tab,
  line feed, vertical tab, form feed, carriage return, space, U+00A0, U+1680, U+2000 to
  U+200A, U+2028, U+2029, U+202F, U+205F, U+3000 and U+FEFF. In well-formed UTF-8 an
  occurrence of one of these byte sequences is an occurrence of the character.
\<close>

definition white_space :: "string list" where
  "white_space =
     [[CHR 0x09], [CHR 0x0A], [CHR 0x0B], [CHR 0x0C], [CHR 0x0D], [CHR 0x20],
      [CHR 0xC2, CHR 0xA0],
      [CHR 0xE1, CHR 0x9A, CHR 0x80],
      [CHR 0xE2, CHR 0x80, CHR 0x80], [CHR 0xE2, CHR 0x80, CHR 0x81],
      [CHR 0xE2, CHR 0x80, CHR 0x82], [CHR 0xE2, CHR 0x80, CHR 0x83],
      [CHR 0xE2, CHR 0x80, CHR 0x84], [CHR 0xE2, CHR 0x80, CHR 0x85],
      [CHR 0xE2, CHR 0x80, CHR 0x86], [CHR 0xE2, CHR 0x80, CHR 0x87],
      [CHR 0xE2, CHR 0x80, CHR 0x88], [CHR 0xE2, CHR 0x80, CHR 0x89],
      [CHR 0xE2, CHR 0x80, CHR 0x8A],
      [CHR 0xE2, CHR 0x80, CHR 0xA8], [CHR 0xE2, CHR 0x80, CHR 0xA9],
      [CHR 0xE2, CHR 0x80, CHR 0xAF],
      [CHR 0xE2, CHR 0x81, CHR 0x9F],
      [CHR 0xE3, CHR 0x80, CHR 0x80],
      [CHR 0xEF, CHR 0xBB, CHR 0xBF]]"

text \<open>The sequence of \<open>seqs\<close> that the string starts with, if any.\<close>

definition leading_space :: "string list \<Rightarrow> string \<Rightarrow> string option" where
  "leading_space seqs s = find (\<lambda>ws. ws \<noteq> [] \<and> take (length ws) s = ws) seqs"

function strip :: "string list \<Rightarrow> string \<Rightarrow> string" where
  "strip seqs s =
     (case leading_space seqs s of
        None \<Rightarrow> s
      | Some ws \<Rightarrow> strip seqs (drop (length ws) s))"
  by pat_completeness auto
termination
proof (relation "measure (\<lambda>(seqs, s). length s)")
  show "wf (measure (\<lambda>(seqs, s). length s))" by simp
next
  fix seqs :: "string list" and s ws :: string
  assume "leading_space seqs s = Some ws"
  then have ne: "ws \<noteq> []" and pre: "take (length ws) s = ws"
    by (auto simp: leading_space_def find_Some_iff)
  from pre have "length (take (length ws) s) = length ws" by simp
  then have "length ws \<le> length s" by simp
  with ne have "length (drop (length ws) s) < length s" by (cases ws) auto
  then show "((seqs, drop (length ws) s), (seqs, s)) \<in> measure (\<lambda>(seqs, s). length s)"
    by simp
qed

declare strip.simps [simp del]

text \<open>\<open>trim\<close>: white space is removed from the start, then from the end.\<close>

definition trim :: "string \<Rightarrow> string" where
  "trim s = rev (strip (map rev white_space) (rev (strip white_space s)))"

text \<open>Whether a white-space character occurs anywhere in the string.\<close>

fun has_white_space :: "string \<Rightarrow> bool" where
  "has_white_space [] = False"
| "has_white_space (c # cs) =
     (leading_space white_space (c # cs) \<noteq> None \<or> has_white_space cs)"

text \<open>Decimal rendering of a number inside a template literal (integers only).\<close>

definition digit_char :: "nat \<Rightarrow> char" where
  "digit_char d = ''0123456789'' ! d"

fun digits_of :: "nat \<Rightarrow> string" where
  "digits_of n = (if n < 10 then [digit_char n] else digits_of (n div 10) @ [digit_char (n mod 10)])"

declare digits_of.simps [simp del]

definition number_to_string :: "int \<Rightarrow> string" where
  "number_to_string n = (if n < 0 then CHR ''-'' # digits_of (nat (- n)) else digits_of (nat n))"

text \<open>
  Money amounts are JavaScript numbers that the code adds through Decimal.js (precision
  20, \<open>ROUND_HALF_UP\<close>). The model takes an amount as the rational number that its
  shortest decimal form denotes, which is how Decimal.js reads a number, and adds
  exactly. \<open>toDecimalPlaces(2)\<close> rounds to two fractional digits, to the nearest and
  ties away from zero. This is what the code computes as long as every sum has at most
  20 significant digits and is below \<open>2^46\<close> in magnitude: then no addition rounds,
  and the final \<open>toNumber()\<close> gives the double that prints as the same decimal with
  two fractional digits. Longer or larger amounts are outside the model.
\<close>

definition toDecimalPlaces2 :: "rat \<Rightarrow> rat" where
  "toDecimalPlaces2 x =
     (if 0 \<le> x then of_int \<lfloor>x * 100 + 1 / 2\<rfloor> / 100
      else - (of_int \<lfloor>- x * 100 + 1 / 2\<rfloor> / 100))"

text \<open>\<open>array.filter((_, i) => p(i))\<close>: the elements whose index satisfies \<open>p\<close>, in order.\<close>

definition filter_by_index :: "(int \<Rightarrow> bool) \<Rightarrow> 'a list \<Rightarrow> 'a list" where
  "filter_by_index p xs = map snd (filter (\<lambda>(i, x). p (int i)) (enumerate 0 xs))"

text \<open>
  What an HTTP observable or a promise delivers: a value, or an error. An error thrown by
  the HTTP client is an \<open>HttpErrorResponse\<close> whose body may be the backend's structured
  error envelope, or some other value that may itself have that structure; \<open>None\<close> stands
  for a body that is not an object with a string \<open>type\<close> field.
\<close>

record ApiErrorResponse =
  err_type :: string
  err_code :: "string option"
  err_message :: "string option"
  err_details :: "(string \<times> string) list"

datatype thrown =
    HttpErrorResponse "ApiErrorResponse option"
  | OtherError "ApiErrorResponse option"

datatype 'a outcome = Next 'a | Error thrown

section \<open>Data model (core/models)\<close>

record DatosFacturacion =
  df_tipoDocumento :: int
  df_complementoDocumento :: string
  df_numeroDocumento :: string
  df_nombreRazonsocial :: string
  df_correoElectronico :: string
  df_numeroTelefono :: string

text \<open>\<open>PagoPendiente\<close> and \<open>DeudaSeleccionada\<close> declare the same eight fields.\<close>

record PagoPendiente =
  documentoPago :: string
  periodoGestion :: int
  periodoMes :: int
  periodoCobro :: string
  periodoServicio :: rat
  periodoComision :: rat
  periodoTotal :: rat
  periodoCode :: string

type_synonym DeudaSeleccionada = PagoPendiente

text \<open>
  A cart item. The type parameter is the type of the currency field: \<open>string\<close> for an
  \<open>ItemCarrito\<close> of the running application, \<open>string option\<close> for an item as
  \<open>JSON.parse\<close> returns it from a stored cart, where a legacy record has no such field.
\<close>

record 'm ItemCarrito_json =
  fechaAdicion :: int
  aliasServicio :: string
  nombreServicio :: string
  abreviacionMoneda :: 'm
  descripcionDocOficial :: string
  codigoDeuda :: string
  codigoContrato :: string
  nombreAsociado :: string
  datosFacturacion :: DatosFacturacion
  totalServicio :: rat
  totalComision :: rat
  totalGeneral :: rat
  deudasSeleccionadas :: "DeudaSeleccionada list"

type_synonym ItemCarrito = "string ItemCarrito_json"

text \<open>
  The \<open>sessionId\<close> of a cart. \<open>addItem\<close> writes a string; a cart read back by
  \<open>JSON.parse\<close> holds whatever the stored text has there: a string, \<open>null\<close>, or
  something else (no such field, a number, an object), which \<open>===\<close> tells from every
  value that \<open>sessionStorage.getItem\<close> returns.
\<close>

datatype session_value = SessionString string | SessionNull | SessionOther

record 'm Carrito_json =
  sessionId :: session_value
  items :: "'m ItemCarrito_json list"
  createdAt :: int
  updatedAt :: int

type_synonym Carrito = "string Carrito_json"

record DatosAsociado =
  da_codigoDeuda :: string
  da_codigoAsociado :: string
  da_nombreAsociado :: string
  da_tipoDocumento :: int
  da_numeroDocumento :: string
  da_complementoDocumento :: string
  da_nombreRazonsocial :: string
  da_correoElectronico :: string
  da_numeroTelefono :: string

record Contrato =
  ct_codigoContrato :: string
  checksumContrato :: string
  datosAsociado :: DatosAsociado

text \<open>
  Backend envelopes \<open>{success, data}\<close>. The handlers read them through optional
  chaining (\<open>response?.success\<close>, \<open>response.data?.contratosAsociado?.length\<close>), so
  a response may be \<open>null\<close> (an \<open>option\<close> at the use site) and \<open>data\<close> holds the one
  part of the payload that the handler reads, \<open>None\<close> when \<open>data\<close> or that part is
  absent: the contracts, the pending payments, the document state, the QR data.
\<close>

record 'd Envelope =
  success :: bool
  data :: "'d option"

text \<open>\<^verbatim>\<open>response?.success && response.data?.part\<close>: the part read, when all are truthy.\<close>

definition envelope_data :: "'d Envelope option \<Rightarrow> 'd option" where
  "envelope_data response =
     (case response of None \<Rightarrow> None | Some r \<Rightarrow> if success r then data r else None)"

type_synonym ContratosResponse = "Contrato list Envelope"
type_synonym DeudasResponse = "PagoPendiente list Envelope"
type_synonym NITResponse = "string Envelope"

record ConsultarContratosRequest =
  codigoEncriptado :: string
  rq_medioPago :: string
  rq_codigoDeuda :: string

record ConsultarDeudasRequest =
  rq_codigoContrato :: string
  rq_checksumContrato :: string

section \<open>Session storage and the injected services\<close>

text \<open>
  \<open>sessionStorage\<close> is a map from keys to strings: \<open>getItem\<close> is application (absent
  keys give \<open>null\<close>) and \<open>removeItem\<close> is an update. \<open>setItem\<close> throws (a
  \<open>QuotaExceededError\<close>) when the browser refuses the write and then leaves the storage as
  it was; \<open>accepts\<close> is the browser's decision for a content, a key and a value.
  Access to the storage object itself is taken as granted: a browser that denies it
  throws on every use, at the construction of the services already.

  The services are singletons; \<open>App\<close> holds the session storage together with the private
  signals of \<open>CartService\<close> (\<open>cart\<close>) and of \<open>FingerprintService\<close> (\<open>fingerprint\<close>).
\<close>

record App =
  sessionStorage :: "string \<rightharpoonup> string"
  accepts :: "(string \<rightharpoonup> string) \<Rightarrow> string \<Rightarrow> string \<Rightarrow> bool"
  cart :: "Carrito option"
  fingerprint :: string

text \<open>\<open>sessionStorage.setItem\<close>: the new state, or \<open>None\<close> when it throws.\<close>

definition setItem :: "string \<Rightarrow> string \<Rightarrow> App \<Rightarrow> App option" where
  "setItem key v app =
     (if accepts app (sessionStorage app) key v
      then Some (app\<lparr>sessionStorage := (sessionStorage app)(key \<mapsto> v)\<rparr>)
      else None)"

text \<open>How a call of a \<open>void\<close> method ends: it returns, or an exception leaves it.\<close>

datatype completion = Returned | Threw

subsection \<open>CartService (core/services/cart.service.ts)\<close>

definition STORAGE_KEY :: string where
  "STORAGE_KEY = ''redis_cart_items''"

definition SESSION_KEY :: string where
  "SESSION_KEY = ''redis_session_id''"

text \<open>The computed signals \<open>items\<close>, \<open>itemCount\<close>, \<open>isEmpty\<close> and \<open>cartCurrency\<close>.\<close>

definition cartItems :: "App \<Rightarrow> ItemCarrito list" where
  "cartItems app = (case cart app of None \<Rightarrow> [] | Some c \<Rightarrow> items c)"

definition itemCount :: "App \<Rightarrow> nat" where
  "itemCount app = length (cartItems app)"

definition isEmpty :: "App \<Rightarrow> bool" where
  "isEmpty app = (itemCount app = 0)"

definition cartCurrency :: "App \<Rightarrow> string option" where
  "cartCurrency app =
     (case cartItems app of [] \<Rightarrow> None | first # rest \<Rightarrow> Some (abreviacionMoneda first))"

definition clearCart :: "App \<Rightarrow> App" where
  "clearCart app =
     app\<lparr>cart := None, sessionStorage := (sessionStorage app)(STORAGE_KEY := None)\<rparr>"

text \<open>
  \<open>saveCart\<close>; the parameter \<open>stringify\<close> is \<open>JSON.stringify\<close> on carts. The result
  is \<open>None\<close> when \<open>setItem\<close> throws.
\<close>

definition saveCart :: "(Carrito \<Rightarrow> string) \<Rightarrow> App \<Rightarrow> App option" where
  "saveCart stringify app =
     (case cart app of
        None \<Rightarrow> Some app
      | Some currentCart \<Rightarrow> setItem STORAGE_KEY (stringify currentCart) app)"

text \<open>
  \<open>generateSessionId\<close>: \<open>now\<close> is \<open>Date.now()\<close> and \<open>rnd\<close> is
  \<open>Math.random().toString(36).substring(2, 11)\<close>.
\<close>

definition generateSessionId :: "int \<Rightarrow> string \<Rightarrow> string" where
  "generateSessionId now rnd = number_to_string now @ ''-'' @ rnd"

text \<open>\<open>getOrCreateSessionId\<close>: \<open>None\<close> when the write of a new id throws.\<close>

definition getOrCreateSessionId :: "int \<Rightarrow> string \<Rightarrow> App \<Rightarrow> (string \<times> App) option" where
  "getOrCreateSessionId now rnd app =
     (let stored = sessionStorage app SESSION_KEY in
      if truthy stored then Some (the stored, app)
      else
        (let sid = generateSessionId now rnd in
         case setItem SESSION_KEY sid app of
           None \<Rightarrow> None
         | Some app1 \<Rightarrow> Some (sid, app1)))"


text \<open>
  \<open>addItem\<close>. The reads of \<open>Date.now()\<close> within one call are taken at one instant
  \<open>now\<close>. The \<open>catch\<close> turns an exception of \<open>getOrCreateSessionId\<close> or of
  \<open>saveCart\<close> into the result \<open>false\<close>; the signal was set before \<open>saveCart\<close> ran
  and keeps the new cart.
\<close>

definition addItem ::
  "(Carrito \<Rightarrow> string) \<Rightarrow> int \<Rightarrow> string \<Rightarrow> ItemCarrito \<Rightarrow> App \<Rightarrow> bool \<times> App" where
  "addItem stringify now rnd item app =
     (let currentCart = cart app in
      case getOrCreateSessionId now rnd app of
        None \<Rightarrow> (False, app)
      | Some (sid, app1) \<Rightarrow>
          (let newCart = \<lparr>sessionId = SessionString sid,
                          items = (case currentCart of
                                     Some c \<Rightarrow> items c @ [item]
                                   | None \<Rightarrow> [item]),
                          createdAt = (case currentCart of
                                         Some c \<Rightarrow> createdAt c
                                       | None \<Rightarrow> now),
                          updatedAt = now\<rparr>;
               app2 = app1\<lparr>cart := Some newCart\<rparr>
           in case saveCart stringify app2 of
                None \<Rightarrow> (False, app2)
              | Some app3 \<Rightarrow> (True, app3)))"

text \<open>
  \<open>removeItem\<close> has no \<open>try\<close> block: when \<open>saveCart\<close> throws, the exception leaves
  the method, after the signal was set.
\<close>

definition removeItem ::
  "(Carrito \<Rightarrow> string) \<Rightarrow> int \<Rightarrow> int \<Rightarrow> App \<Rightarrow> completion \<times> App" where
  "removeItem stringify now index app =
     (case cart app of
        None \<Rightarrow> (Returned, app)
      | Some currentCart \<Rightarrow>
          (let newItems = filter_by_index (\<lambda>i. i \<noteq> index) (items currentCart) in
           if length newItems = 0 then (Returned, clearCart app)
           else
             (let app1 = app\<lparr>cart := Some (currentCart\<lparr>items := newItems, updatedAt := now\<rparr>)\<rparr>
              in case saveCart stringify app1 of
                   None \<Rightarrow> (Threw, app1)
                 | Some app2 \<Rightarrow> (Returned, app2))))"

definition findDuplicateIndex :: "string \<Rightarrow> string \<Rightarrow> App \<Rightarrow> int" where
  "findDuplicateIndex alias contrato app =
     (case find (\<lambda>(i, item). aliasServicio item = alias \<and> codigoContrato item = contrato)
             (enumerate 0 (cartItems app)) of
        None \<Rightarrow> - 1
      | Some (i, item) \<Rightarrow> int i)"

record CurrencyCheck =
  canAdd :: bool
  existingCurrency :: "string option"

definition canAddItemWithCurrency :: "string \<Rightarrow> App \<Rightarrow> CurrencyCheck" where
  "canAddItemWithCurrency moneda app =
     (case cartItems app of
        [] \<Rightarrow> \<lparr>canAdd = True, existingCurrency = None\<rparr>
      | first # rest \<Rightarrow>
          \<lparr>canAdd = (abreviacionMoneda first = moneda),
           existingCurrency = Some (abreviacionMoneda first)\<rparr>)"

definition replaceItem ::
  "(Carrito \<Rightarrow> string) \<Rightarrow> int \<Rightarrow> int \<Rightarrow> ItemCarrito \<Rightarrow> App \<Rightarrow> bool \<times> App" where
  "replaceItem stringify now index newItem app =
     (case cart app of
        None \<Rightarrow> (False, app)
      | Some currentCart \<Rightarrow>
          if index < 0 \<or> index \<ge> int (length (items currentCart)) then (False, app)
          else
            (let newItems = (items currentCart)[nat index := newItem];
                 newCart = currentCart\<lparr>items := newItems, updatedAt := now\<rparr>;
                 app1 = app\<lparr>cart := Some newCart\<rparr>
             in case saveCart stringify app1 of
                  None \<Rightarrow> (False, app1)
                | Some app2 \<Rightarrow> (True, app2)))"




subsection \<open>ErrorModalService (core/services/error-modal.service.ts)\<close>

text \<open>
  Of the modal configuration the model keeps the type, code, message and details; the
  styling fields, the button label and the redirect policy come from a table of defaults
  and play no part below.
\<close>

record ErrorModalService =
  em_isVisible :: bool
  em_config :: ApiErrorResponse

definition isApiError :: "ApiErrorResponse option \<Rightarrow> bool" where
  "isApiError body =
     (case body of
        None \<Rightarrow> False
      | Some e \<Rightarrow> err_type e \<in> set [''error'', ''warning'', ''alert'', ''info''])"

text \<open>
  \<open>extractApiError\<close>: the body of an \<open>HttpErrorResponse\<close>, else the error itself (the
  \<open>type\<close> of an \<open>HttpErrorResponse\<close> object is a number, so the second test fails on it).
\<close>

definition extractApiError :: "thrown \<Rightarrow> ApiErrorResponse option" where
  "extractApiError err =
     (case err of
        HttpErrorResponse body \<Rightarrow> (if isApiError body then body else None)
      | OtherError v \<Rightarrow> (if isApiError v then v else None))"

definition handleHttpError :: "thrown \<Rightarrow> ErrorModalService \<Rightarrow> bool \<times> ErrorModalService" where
  "handleHttpError err em =
     (case extractApiError err of
        Some apiError \<Rightarrow> (True, \<lparr>em_isVisible = True, em_config = apiError\<rparr>)
      | None \<Rightarrow> (False, em))"

section \<open>Debt-collection wizard (CobranzaWizardComponent)\<close>

record CobranzaWizard =
  cob_aliasServicio :: string
  cob_currentStep :: int
  cob_loading :: bool
  cob_errors :: "string list"
  searchForm_codigoDeuda :: "string option"
  contracts :: "Contrato list"
  selectedContract :: "Contrato option"
  outstandingDebts :: "PagoPendiente list"
  selectedDebts :: "bool list"
  associateData :: "DatosAsociado option"
  cob_errorModal :: ErrorModalService

definition cob_addError :: "string \<Rightarrow> CobranzaWizard \<Rightarrow> CobranzaWizard" where
  "cob_addError message w = w\<lparr>cob_errors := cob_errors w @ [message]\<rparr>"

definition cob_clearErrors :: "CobranzaWizard \<Rightarrow> CobranzaWizard" where
  "cob_clearErrors w = w\<lparr>cob_errors := []\<rparr>"

definition cob_handleApiError :: "thrown \<Rightarrow> string \<Rightarrow> CobranzaWizard \<Rightarrow> CobranzaWizard" where
  "cob_handleApiError err fallbackMessage w =
     (let (handled, em) = handleHttpError err (cob_errorModal w);
          w1 = w\<lparr>cob_errorModal := em\<rparr>
      in if \<not> handled then cob_addError fallbackMessage w1 else w1)"

subsection \<open>Cascading selection: \<open>toggleDeuda\<close>\<close>

text \<open>
  \<open>toggleDeuda\<close> copies the array of flags, runs one of two \<open>for\<close> loops over the copy
  and stores the copy back. The index is a JavaScript number; the model takes an integer.

  A JavaScript array store \<open>a[i] = v\<close> replaces the element when \<open>i\<close> is in range and
  grows the array when \<open>i\<close> is at or beyond its length (skipped positions are holes,
  which read as \<open>undefined\<close> and are falsy; the model fills them with \<open>False\<close>). A store
  at a negative index adds a property named by the index and leaves the elements and the
  length alone.
\<close>

definition array_store :: "bool list \<Rightarrow> int \<Rightarrow> bool \<Rightarrow> bool list" where
  "array_store xs i v =
     (if i < 0 then xs
      else if nat i < length xs then xs[nat i := v]
      else xs @ replicate (nat i - length xs) False @ [v])"

text \<open>\<^verbatim>\<open>for (let i = 0; i <= index; i++) { selectedDebts[i] = true; }\<close>, from counter \<open>i\<close>.\<close>

function select_loop :: "int \<Rightarrow> int \<Rightarrow> bool list \<Rightarrow> bool list" where
  "select_loop i index sd =
     (if i \<le> index then select_loop (i + 1) index (array_store sd i True) else sd)"
  by pat_completeness auto
termination
  by (relation "measure (\<lambda>(i, index, sd). nat (index + 1 - i))") auto

text \<open>\<^verbatim>\<open>for (let i = index; i < selectedDebts.length; i++) { selectedDebts[i] = false; }\<close>\<close>

function deselect_loop :: "int \<Rightarrow> bool list \<Rightarrow> bool list" where
  "deselect_loop i sd =
     (if i < int (length sd) then deselect_loop (i + 1) (array_store sd i False) else sd)"
  by pat_completeness auto
termination
proof (relation "measure (\<lambda>(i, sd). nat (int (length sd) - i))")
  show "wf (measure (\<lambda>(i, sd). nat (int (length sd) - i)))"
    by simp
next
  fix i :: int and sd :: "bool list"
  assume in_range: "i < int (length sd)"
  have "length (array_store sd i False) = length sd"
  proof (cases "i < 0")
    case True
    then show ?thesis by (simp add: array_store_def)
  next
    case False
    with in_range have "nat i < length sd" by arith
    with False show ?thesis by (simp add: array_store_def)
  qed
  with in_range
  show "((i + 1, array_store sd i False), (i, sd))
          \<in> measure (\<lambda>(i, sd). nat (int (length sd) - i))"
    by simp
qed

declare select_loop.simps [simp del]
declare deselect_loop.simps [simp del]

definition toggleDeuda :: "int \<Rightarrow> bool \<Rightarrow> CobranzaWizard \<Rightarrow> CobranzaWizard" where
  "toggleDeuda index checked w =
     (let copy = selectedDebts w in
      w\<lparr>selectedDebts := (if checked then select_loop 0 index copy
                           else deselect_loop index copy)\<rparr>)"

definition toggleTodasDeudas :: "bool \<Rightarrow> CobranzaWizard \<Rightarrow> CobranzaWizard" where
  "toggleTodasDeudas checked w =
     w\<lparr>selectedDebts := map (\<lambda>d. checked) (outstandingDebts w)\<rparr>"

definition cob_prevStep :: "CobranzaWizard \<Rightarrow> CobranzaWizard" where
  "cob_prevStep w =
     (if cob_currentStep w > 1
      then (cob_clearErrors w)\<lparr>cob_currentStep := cob_currentStep w - 1\<rparr>
      else w)"

subsection \<open>Step 1: \<open>consultContracts\<close> and \<open>consultDebts$\<close>\<close>

text \<open>
  The two backend queries are functions of the environment: each answers a request with
  a response or fails with an error. A run of \<open>consultContracts\<close> yields the calls it
  made and the wizard states after each synchronous stage of the observable chain, in
  order: after the guard, after the \<open>switchMap\<close> projection, after the \<open>tap\<close> of
  \<open>consultDebts$\<close> or the \<open>catchError\<close> handler (when one runs) and after
  \<open>finalize\<close>. Each stage writes \<open>currentStep\<close> at most once.
\<close>

record CobranzaApi =
  consultCollectionContracts ::
    "ConsultarContratosRequest \<Rightarrow> string \<Rightarrow> ContratosResponse option outcome"
  consultCollectionDebts ::
    "ConsultarDeudasRequest \<Rightarrow> string \<Rightarrow> DeudasResponse option outcome"

datatype cob_call =
    CallContracts ConsultarContratosRequest string
  | CallDebts ConsultarDeudasRequest string

text \<open>The \<open>tap\<close> of \<open>consultDebts$\<close>; an empty array of payments is truthy.\<close>

definition consultDebts_request :: "Contrato \<Rightarrow> ConsultarDeudasRequest" where
  "consultDebts_request contract =
     \<lparr>rq_codigoContrato = ct_codigoContrato contract,
      rq_checksumContrato = checksumContrato contract\<rparr>"

definition consultDebts_tap ::
  "Contrato \<Rightarrow> DeudasResponse option \<Rightarrow> CobranzaWizard \<Rightarrow> CobranzaWizard" where
  "consultDebts_tap contract response w =
     (case envelope_data response of
        Some pagosPendientes \<Rightarrow>
          w\<lparr>outstandingDebts := pagosPendientes,
            associateData := Some (datosAsociado contract),
            selectedDebts := map (\<lambda>d. True) pagosPendientes,
            cob_currentStep := 3\<rparr>
      | None \<Rightarrow> w\<lparr>outstandingDebts := [], selectedDebts := [], cob_currentStep := 3\<rparr>)"

text \<open>
  \<^verbatim>\<open>!response?.success || !response.data?.contratosAsociado?.length\<close>: no response, no
  success, no list, or a list of length zero.
\<close>

definition no_contracts :: "ContratosResponse option \<Rightarrow> bool" where
  "no_contracts response =
     (case response of
        None \<Rightarrow> True
      | Some r \<Rightarrow> \<not> success r \<or> (case data r of None \<Rightarrow> True | Some cs \<Rightarrow> length cs = 0))"

text \<open>
  The projection inside \<open>switchMap\<close>: the new state and the contract whose debts are
  queried next (\<open>None\<close> for \<open>of(null)\<close>).
\<close>

definition consultContracts_switchMap ::
  "ContratosResponse option \<Rightarrow> CobranzaWizard \<Rightarrow> CobranzaWizard \<times> Contrato option" where
  "consultContracts_switchMap response w =
     (if no_contracts response then (cob_addError ''No se encontraron contratos'' w, None)
      else
        (let cs = the (data (the response));
             w1 = w\<lparr>contracts := cs\<rparr>
         in if length cs = 1 then (w1\<lparr>selectedContract := Some (cs ! 0)\<rparr>, Some (cs ! 0))
            else (w1\<lparr>cob_currentStep := 2\<rparr>, None)))"

definition cob_finalize :: "CobranzaWizard \<Rightarrow> CobranzaWizard" where
  "cob_finalize w = w\<lparr>cob_loading := False\<rparr>"

text \<open>The message \<open>Ingrese el c\<acute>odigo de socio\<close>, as UTF-8 bytes.\<close>

definition msg_ingrese_codigo :: string where
  "msg_ingrese_codigo = ''Ingrese el c'' @ [CHR 0xC3, CHR 0xB3] @ ''digo de socio''"

definition consultContracts ::
  "CobranzaApi \<Rightarrow> CobranzaWizard \<Rightarrow> cob_call list \<times> CobranzaWizard list" where
  "consultContracts api w =
     (if cob_loading w then ([], [w])
      else
        (let debtCode = (case searchForm_codigoDeuda w of None \<Rightarrow> '''' | Some v \<Rightarrow> v) in
         if trim debtCode = [] then ([], [cob_addError msg_ingrese_codigo w])
         else
           (let w1 = cob_clearErrors (w\<lparr>cob_loading := True\<rparr>);
                request = \<lparr>codigoEncriptado = '''', rq_medioPago = ''Q'',
                            rq_codigoDeuda = debtCode\<rparr>;
                call1 = CallContracts request (cob_aliasServicio w)
            in case consultCollectionContracts api request (cob_aliasServicio w) of
                 Error err \<Rightarrow>
                   (let w2 = cob_handleApiError err ''Error al consultar contratos'' w1
                    in ([call1], [w1, w2, cob_finalize w2]))
               | Next response \<Rightarrow>
                   (case consultContracts_switchMap response w1 of
                      (w2, None) \<Rightarrow> ([call1], [w1, w2, cob_finalize w2])
                    | (w2, Some contract) \<Rightarrow>
                        (let call2 = CallDebts (consultDebts_request contract)
                                       (cob_aliasServicio w)
                         in case consultCollectionDebts api (consultDebts_request contract)
                                   (cob_aliasServicio w) of
                              Next debts \<Rightarrow>
                                (let w3 = consultDebts_tap contract debts w2
                                 in ([call1, call2], [w1, w2, w3, cob_finalize w3]))
                            | Error err \<Rightarrow>
                                (let w3 = cob_handleApiError err
                                            ''Error al consultar contratos'' w2
                                 in ([call1, call2], [w1, w2, w3, cob_finalize w3])))))))"

definition selectContract :: "Contrato \<Rightarrow> CobranzaWizard \<Rightarrow> CobranzaWizard" where
  "selectContract contract w = w\<lparr>selectedContract := Some contract\<rparr>"

definition confirmContract ::
  "CobranzaApi \<Rightarrow> CobranzaWizard \<Rightarrow> cob_call list \<times> CobranzaWizard list" where
  "confirmContract api w =
     (case selectedContract w of
        None \<Rightarrow> ([], [cob_addError ''Seleccione un contrato'' w])
      | Some contract \<Rightarrow>
          (let w1 = cob_clearErrors (w\<lparr>cob_loading := True\<rparr>);
               call = CallDebts (consultDebts_request contract) (cob_aliasServicio w)
           in case consultCollectionDebts api (consultDebts_request contract)
                     (cob_aliasServicio w) of
                Next debts \<Rightarrow>
                  (let w2 = consultDebts_tap contract debts w1
                   in ([call], [w1, w2, cob_finalize w2]))
              | Error err \<Rightarrow>
                  (let w2 = cob_handleApiError err ''Error al consultar deudas'' w1
                   in ([call], [w1, w2, cob_finalize w2]))))"

subsection \<open>A concrete wizard state\<close>

definition example_errorModal :: ErrorModalService where
  "example_errorModal =
     \<lparr>em_isVisible = False,
      em_config = \<lparr>err_type = ''error'', err_code = Some ''ERR_500'', err_message = None,
                   err_details = []\<rparr>\<rparr>"

definition example_cobranza :: "bool list \<Rightarrow> CobranzaWizard" where
  "example_cobranza flags =
     \<lparr>cob_aliasServicio = ''coopappi'', cob_currentStep = 3, cob_loading = False,
      cob_errors = [], searchForm_codigoDeuda = Some ''12345'', contracts = [],
      selectedContract = None, outstandingDebts = [], selectedDebts = flags,
      associateData = None, cob_errorModal = example_errorModal\<rparr>"

subsection \<open>Concrete carts\<close>

definition example_facturacion :: DatosFacturacion where
  "example_facturacion =
     \<lparr>df_tipoDocumento = 5, df_complementoDocumento = '''', df_numeroDocumento = ''99002'',
      df_nombreRazonsocial = ''CONTROL TRIBUTARIO'', df_correoElectronico = ''ana@example.org'',
      df_numeroTelefono = ''70000000''\<rparr>"

definition example_item_json :: "'m \<Rightarrow> string \<Rightarrow> 'm ItemCarrito_json" where
  "example_item_json moneda contrato =
     \<lparr>fechaAdicion = 1700000000000, aliasServicio = ''coopappi'', nombreServicio = ''COOPAPPI'',
      abreviacionMoneda = moneda, descripcionDocOficial = ''Factura'', codigoDeuda = ''12345'',
      codigoContrato = contrato, nombreAsociado = ''Ana'', datosFacturacion = example_facturacion,
      totalServicio = 100, totalComision = 3 / 2, totalGeneral = 203 / 2,
      deudasSeleccionadas = []\<rparr>"

definition example_item :: "string \<Rightarrow> string \<Rightarrow> ItemCarrito" where
  "example_item moneda contrato = example_item_json moneda contrato"

definition example_stringify :: "Carrito \<Rightarrow> string" where
  "example_stringify c =
     ''cart:'' @ (case sessionId c of
                    SessionString sid \<Rightarrow> sid
                  | SessionNull \<Rightarrow> ''null''
                  | SessionOther \<Rightarrow> ''other'')"

definition example_cart :: "ItemCarrito list \<Rightarrow> Carrito" where
  "example_cart its =
     \<lparr>sessionId = SessionString ''1700000000000-k3j9x0q2a'', items = its,
      createdAt = 1700000000000, updatedAt = 1700000000500\<rparr>"

definition example_app :: "ItemCarrito list \<Rightarrow> App" where
  "example_app its =
     \<lparr>sessionStorage =
        [SESSION_KEY \<mapsto> ''1700000000000-k3j9x0q2a'',
         STORAGE_KEY \<mapsto> example_stringify (example_cart its)],
      accepts = (\<lambda>store key v. True),
      cart = Some (example_cart its),
      fingerprint = ''''\<rparr>"




text \<open>A text made of every white-space character, once each.\<close>

definition blank_text :: string where
  "blank_text = concat white_space"


text \<open>The running application of \<open>example_app\<close> in a browser whose storage is full.\<close>

definition example_full :: "ItemCarrito list \<Rightarrow> App" where
  "example_full its = (example_app its)\<lparr>accepts := (\<lambda>store key v. False)\<rparr>"

text \<open>The cart invariant of the data model: all items share one currency code.\<close>

definition single_currency :: "ItemCarrito list \<Rightarrow> bool" where
  "single_currency its =
     (\<forall>a \<in> set its. \<forall>b \<in> set its. abreviacionMoneda a = abreviacionMoneda b)"

subsection \<open>A concrete backend for the debt-collection wizard\<close>

definition example_asociado :: DatosAsociado where
  "example_asociado =
     \<lparr>da_codigoDeuda = ''12345'', da_codigoAsociado = ''A-1'', da_nombreAsociado = ''Ana'',
      da_tipoDocumento = 1, da_numeroDocumento = ''4567890'', da_complementoDocumento = '''',
      da_nombreRazonsocial = ''Ana'', da_correoElectronico = ''ana@example.org'',
      da_numeroTelefono = ''70000000''\<rparr>"

definition example_contrato :: "string \<Rightarrow> Contrato" where
  "example_contrato code =
     \<lparr>ct_codigoContrato = code, checksumContrato = ''cs-'' @ code,
      datosAsociado = example_asociado\<rparr>"

definition example_pago :: "int \<Rightarrow> PagoPendiente" where
  "example_pago mes =
     \<lparr>documentoPago = ''D'', periodoGestion = 2024, periodoMes = mes, periodoCobro = ''2024'',
      periodoServicio = 50, periodoComision = 1, periodoTotal = 51, periodoCode = ''P''\<rparr>"

text \<open>
  The search code 12345 has one contract, 777 has two, any other code none; every
  contract has two pending payments.
\<close>

definition example_api :: CobranzaApi where
  "example_api =
     \<lparr>consultCollectionContracts =
        (\<lambda>request alias.
           if rq_codigoDeuda request = ''12345''
           then Next (Some \<lparr>success = True, data = Some [example_contrato ''CT-1'']\<rparr>)
           else if rq_codigoDeuda request = ''777''
           then Next (Some \<lparr>success = True,
                             data = Some [example_contrato ''CT-1'', example_contrato ''CT-2'']\<rparr>)
           else Next (Some \<lparr>success = True, data = Some []\<rparr>)),
      consultCollectionDebts =
        (\<lambda>request alias.
           Next (Some \<lparr>success = True, data = Some [example_pago 1, example_pago 2]\<rparr>))\<rparr>"

definition example_search :: "string \<Rightarrow> CobranzaWizard" where
  "example_search code =
     \<lparr>cob_aliasServicio = ''coopappi'', cob_currentStep = 1, cob_loading = False,
      cob_errors = [], searchForm_codigoDeuda = Some code, contracts = [],
      selectedContract = None, outstandingDebts = [], selectedDebts = [],
      associateData = None, cob_errorModal = example_errorModal\<rparr>"

section \<open>Confirmation modal (ConfirmationModalService)\<close>

record ConfirmationModalConfig =
  title :: string
  message :: string
  details :: "(string \<times> string) list"
  confirmText :: string
  cancelText :: string
  headerClass :: string
  iconClass :: string
  confirmButtonClass :: string
  cancelButtonClass :: string
  borderClass :: string

text \<open>\<open>Partial<ConfirmationModalConfig>\<close>: every field may be absent.\<close>

record ConfirmationModalInput =
  in_title :: "string option"
  in_message :: "string option"
  in_details :: "(string \<times> string) list option"
  in_confirmText :: "string option"
  in_cancelText :: "string option"
  in_headerClass :: "string option"
  in_iconClass :: "string option"
  in_confirmButtonClass :: "string option"
  in_cancelButtonClass :: "string option"
  in_borderClass :: "string option"

text \<open>The default texts hold accented letters, written here as UTF-8 bytes.\<close>

definition DEFAULT_CONFIG :: ConfirmationModalConfig where
  "DEFAULT_CONFIG =
     \<lparr>title = ''Confirmar acci'' @ [CHR 0xC3, CHR 0xB3] @ ''n'',
      message = [CHR 0xC2, CHR 0xBF] @ ''Est'' @ [CHR 0xC3, CHR 0xA1]
                @ '' seguro que desea continuar con esta operaci'' @ [CHR 0xC3, CHR 0xB3]
                @ ''n?'',
      details = [],
      confirmText = ''Continuar'',
      cancelText = ''Cancelar'',
      headerClass = ''bg-amber-50 dark:bg-amber-900'',
      iconClass = ''bg-amber-500 text-white'',
      confirmButtonClass = ''bg-amber-500 hover:bg-amber-600'',
      cancelButtonClass =
        ''bg-gray-200 hover:bg-gray-300 text-gray-800 dark:bg-gray-700 dark:hover:bg-gray-600 dark:text-gray-100'',
      borderClass = ''border-amber-300 dark:border-amber-700''\<rparr>"

text \<open>
  Object spread \<open>{...a, ...b}\<close> on string-keyed objects kept as association lists: the
  keys of \<open>a\<close> in their order with the values of \<open>b\<close> where it has the key, then the
  other keys of \<open>b\<close>.
\<close>

definition object_spread ::
  "(string \<times> string) list \<Rightarrow> (string \<times> string) list \<Rightarrow> (string \<times> string) list" where
  "object_spread a b =
     map (\<lambda>(k, v). (k, case map_of b k of Some v' \<Rightarrow> v' | None \<Rightarrow> v)) a
     @ filter (\<lambda>(k, v). map_of a k = None) b"

definition or_default :: "'a option \<Rightarrow> 'a \<Rightarrow> 'a" where
  "or_default v d = (case v of None \<Rightarrow> d | Some x \<Rightarrow> x)"

definition merge_config :: "ConfirmationModalInput option \<Rightarrow> ConfirmationModalConfig" where
  "merge_config customConfig =
     (case customConfig of
        None \<Rightarrow> DEFAULT_CONFIG\<lparr>details := object_spread (details DEFAULT_CONFIG) []\<rparr>
      | Some c \<Rightarrow>
          \<lparr>title = or_default (in_title c) (title DEFAULT_CONFIG),
           message = or_default (in_message c) (message DEFAULT_CONFIG),
           details = object_spread (details DEFAULT_CONFIG) (or_default (in_details c) []),
           confirmText = or_default (in_confirmText c) (confirmText DEFAULT_CONFIG),
           cancelText = or_default (in_cancelText c) (cancelText DEFAULT_CONFIG),
           headerClass = or_default (in_headerClass c) (headerClass DEFAULT_CONFIG),
           iconClass = or_default (in_iconClass c) (iconClass DEFAULT_CONFIG),
           confirmButtonClass =
             or_default (in_confirmButtonClass c) (confirmButtonClass DEFAULT_CONFIG),
           cancelButtonClass =
             or_default (in_cancelButtonClass c) (cancelButtonClass DEFAULT_CONFIG),
           borderClass = or_default (in_borderClass c) (borderClass DEFAULT_CONFIG)\<rparr>)"

text \<open>
  Promises are numbered in the order of their creation: \<open>promises ! p\<close> is \<open>None\<close> while
  promise \<open>p\<close> is pending and \<open>Some b\<close> once it is resolved with \<open>b\<close>. The resolver of a
  promise is identified with the promise; the signal \<open>_resolveCallback\<close> holds one
  resolver or \<open>null\<close>. Calling the resolver of a settled promise has no effect.
\<close>

record ConfirmationModalService =
  cm_isVisible :: bool
  cm_config :: ConfirmationModalConfig
  resolveCallback :: "nat option"
  promises :: "bool option list"

definition resolve_promise :: "nat \<Rightarrow> bool \<Rightarrow> bool option list \<Rightarrow> bool option list" where
  "resolve_promise p b ps = (if p < length ps \<and> ps ! p = None then ps[p := Some b] else ps)"

definition cm_show ::
  "ConfirmationModalInput option \<Rightarrow> ConfirmationModalService \<Rightarrow> ConfirmationModalService" where
  "cm_show customConfig s = s\<lparr>cm_config := merge_config customConfig, cm_isVisible := True\<rparr>"

definition cm_hide :: "ConfirmationModalService \<Rightarrow> ConfirmationModalService" where
  "cm_hide s = s\<lparr>cm_isVisible := False\<rparr>"

text \<open>\<open>confirm\<close> returns the new promise; its executor stores the resolver and shows.\<close>

definition confirm ::
  "ConfirmationModalInput option \<Rightarrow> ConfirmationModalService
     \<Rightarrow> nat \<times> ConfirmationModalService" where
  "confirm customConfig s =
     (let p = length (promises s);
          s1 = s\<lparr>promises := promises s @ [None]\<rparr>;
          s2 = s1\<lparr>resolveCallback := Some p\<rparr>
      in (p, cm_show customConfig s2))"

definition handleConfirm :: "ConfirmationModalService \<Rightarrow> ConfirmationModalService" where
  "handleConfirm s =
     (let resolve = resolveCallback s;
          s1 = cm_hide s
      in case resolve of
           None \<Rightarrow> s1
         | Some p \<Rightarrow> s1\<lparr>promises := resolve_promise p True (promises s1),
                          resolveCallback := None\<rparr>)"

definition handleCancel :: "ConfirmationModalService \<Rightarrow> ConfirmationModalService" where
  "handleCancel s =
     (let resolve = resolveCallback s;
          s1 = cm_hide s
      in case resolve of
           None \<Rightarrow> s1
         | Some p \<Rightarrow> s1\<lparr>promises := resolve_promise p False (promises s1),
                          resolveCallback := None\<rparr>)"

text \<open>Any later use of the service: a sequence of calls and button clicks.\<close>

datatype modal_op =
    CallConfirm "ConfirmationModalInput option"
  | ClickConfirm
  | ClickCancel

fun modal_step :: "modal_op \<Rightarrow> ConfirmationModalService \<Rightarrow> ConfirmationModalService" where
  "modal_step (CallConfirm c) s = snd (confirm c s)"
| "modal_step ClickConfirm s = handleConfirm s"
| "modal_step ClickCancel s = handleCancel s"

fun modal_run :: "modal_op list \<Rightarrow> ConfirmationModalService \<Rightarrow> ConfirmationModalService" where
  "modal_run [] s = s"
| "modal_run (op # ops) s = modal_run ops (modal_step op s)"

definition modal_initial :: ConfirmationModalService where
  "modal_initial =
     \<lparr>cm_isVisible = False, cm_config = DEFAULT_CONFIG, resolveCallback = None, promises = []\<rparr>"

definition example_input :: "string \<Rightarrow> ConfirmationModalInput" where
  "example_input t =
     \<lparr>in_title = Some t, in_message = None, in_details = Some [(''Contrato'', ''CT-1'')],
      in_confirmText = Some ''Continuar y reemplazar'', in_cancelText = None,
      in_headerClass = None, in_iconClass = None, in_confirmButtonClass = None,
      in_cancelButtonClass = None, in_borderClass = None\<rparr>"

section \<open>Fingerprint generator (FingerprintService)\<close>

definition CACHE_KEY :: string where
  "CACHE_KEY = ''browser_fingerprint_cache''"

definition CACHE_DURATION :: int where
  "CACHE_DURATION = 5 * 60 * 1000"

record FingerprintCache =
  fc_fingerprint :: string
  fc_timestamp :: int

text \<open>
  The browser as the generator meets it: the clock, \<open>JSON.parse\<close> and \<open>JSON.stringify\<close>
  on cache entries (\<open>None\<close> when the parse or the destructuring of its result throws),
  the outcome of \<open>collectComponents\<close> (\<open>None\<close> when a probe that is not wrapped in its
  own \<open>try\<close> throws) and the hex digest of the serialised components (\<open>None\<close> when
  \<open>crypto.subtle\<close> is missing or the serialisation or the digest throws). The type
  \<open>'c\<close> is the record of collected components.
\<close>

record 'c Browser =
  Date_now :: int
  JSON_parse_cache :: "string \<Rightarrow> FingerprintCache option"
  JSON_stringify_cache :: "FingerprintCache \<Rightarrow> string"
  collectComponents :: "'c option"
  sha256_hex :: "'c \<Rightarrow> string option"

definition getCached :: "'c Browser \<Rightarrow> App \<Rightarrow> string option \<times> App" where
  "getCached b a =
     (let cached = sessionStorage a CACHE_KEY in
      if \<not> truthy cached then (None, a)
      else
        (case JSON_parse_cache b (the cached) of
           None \<Rightarrow> (None, a)
         | Some entry \<Rightarrow>
             if Date_now b - fc_timestamp entry > CACHE_DURATION
             then (None, a\<lparr>sessionStorage := (sessionStorage a)(CACHE_KEY := None)\<rparr>)
             else (Some (fc_fingerprint entry), a)))"

text \<open>\<open>setCached\<close> ignores an exception of the write.\<close>

definition setCached :: "'c Browser \<Rightarrow> string \<Rightarrow> App \<Rightarrow> App" where
  "setCached b fp a =
     (case setItem CACHE_KEY
             (JSON_stringify_cache b \<lparr>fc_fingerprint = fp, fc_timestamp = Date_now b\<rparr>) a of
        None \<Rightarrow> a
      | Some a1 \<Rightarrow> a1)"

definition hashComponents :: "'c Browser \<Rightarrow> 'c \<Rightarrow> string" where
  "hashComponents b components =
     (case sha256_hex b components of Some hex \<Rightarrow> hex | None \<Rightarrow> '''')"

text \<open>\<open>generate\<close>: the string the promise resolves with, and the new state.\<close>

definition generate :: "'c Browser \<Rightarrow> App \<Rightarrow> string \<times> App" where
  "generate b a =
     (let (cached, a1) = getCached b a in
      if truthy cached then (the cached, a1\<lparr>fingerprint := the cached\<rparr>)
      else
        (case collectComponents b of
           None \<Rightarrow> ('''', a1)
         | Some components \<Rightarrow>
             (let fp = hashComponents b components in
              if fp \<noteq> [] then (fp, (setCached b fp a1)\<lparr>fingerprint := fp\<rparr>)
              else (fp, a1))))"

section \<open>Checkout wizard (CheckoutWizardComponent)\<close>

record FormValue =
  medioPago :: string
  sinNombre :: string
  razonSocial :: string
  tipoDocumento :: int
  documentoSIN :: string
  complementoSIN :: string
  excepcionNIT :: string
  correoElectronico :: string
  numeroTelefono :: string

record QRData =
  validity :: string
  qrImage :: string

type_synonym PagoResponse = "QRData Envelope"

record PagoRequest =
  pr_medioPago :: string
  itemsCarrito :: "ItemCarrito list"
  totalServicios :: rat
  totalComisiones :: rat
  pr_totalGeneral :: rat
  pr_tipoDocumento :: int
  pr_documentoSIN :: string
  pr_complementoSIN :: string
  pr_excepcionNIT :: string
  pr_razonSocial :: string
  pr_correoElectronico :: string
  pr_numeroTelefono :: string
  browserFingerprint :: string

text \<open>
  The component state: its signals, the value of its form, and the services it injects.
  The two tooltip signals are display state that no method below reads or writes; the
  calls of \<open>window.scrollTo\<close> and of the router are left out.
\<close>

record CheckoutWizard =
  currentStep :: int
  loading :: bool
  errors :: "string list"
  showExceptionNIT :: bool
  itemsCart :: "ItemCarrito list"
  form :: FormValue
  qrData :: QRData
  app :: App
  errorModal :: ErrorModalService

definition processCardPayments :: bool where
  "processCardPayments = True"

definition totalSteps :: int where
  "totalSteps = 5"

definition hasItems :: "CheckoutWizard \<Rightarrow> bool" where
  "hasItems w = (length (itemsCart w) > 0)"

definition totalServices :: "CheckoutWizard \<Rightarrow> rat" where
  "totalServices w =
     toDecimalPlaces2 (foldl (\<lambda>sum item. sum + totalServicio item) 0 (itemsCart w))"

definition totalCommissions :: "CheckoutWizard \<Rightarrow> rat" where
  "totalCommissions w =
     toDecimalPlaces2 (foldl (\<lambda>sum item. sum + totalComision item) 0 (itemsCart w))"

definition totalGeneral_wizard :: "CheckoutWizard \<Rightarrow> rat" where
  "totalGeneral_wizard w = toDecimalPlaces2 (totalServices w + totalCommissions w)"

definition hasCommissions :: "CheckoutWizard \<Rightarrow> bool" where
  "hasCommissions w = (totalCommissions w > 0)"

definition canAdvance :: "CheckoutWizard \<Rightarrow> bool" where
  "canAdvance w =
     (if currentStep w = 1 then hasItems w
      else if currentStep w = 2 then medioPago (form w) \<noteq> ''''
      else if currentStep w = 3 then trim (correoElectronico (form w)) \<noteq> ''''
      else if currentStep w = 4 then True
      else False)"

definition addError :: "string \<Rightarrow> CheckoutWizard \<Rightarrow> CheckoutWizard" where
  "addError msg w = w\<lparr>errors := errors w @ [msg]\<rparr>"

definition clearErrors :: "CheckoutWizard \<Rightarrow> CheckoutWizard" where
  "clearErrors w = w\<lparr>errors := []\<rparr>"

definition handleApiError :: "thrown \<Rightarrow> string \<Rightarrow> CheckoutWizard \<Rightarrow> CheckoutWizard" where
  "handleApiError err fallbackMessage w =
     (let (handled, em) = handleHttpError err (errorModal w);
          w1 = w\<lparr>errorModal := em\<rparr>
      in if \<not> handled then addError fallbackMessage w1 else w1)"

text \<open>\<open>ngOnInit\<close>: the local snapshot of the cart and the pre-filled email.\<close>

definition loadCart_wizard :: "CheckoutWizard \<Rightarrow> CheckoutWizard" where
  "loadCart_wizard w =
     (let its = cartItems (app w);
          w1 = w\<lparr>itemsCart := its\<rparr>
      in case its of
           [] \<Rightarrow> w1
         | first # rest \<Rightarrow>
             if df_correoElectronico (datosFacturacion first) \<noteq> []
             then w1\<lparr>form := (form w1)
                     \<lparr>correoElectronico := df_correoElectronico (datosFacturacion first)\<rparr>\<rparr>
             else w1)"

text \<open>
  The component's \<open>removeItem\<close>. An exception of the service's \<open>removeItem\<close> leaves
  this method too, before the local snapshot is refreshed.
\<close>

definition removeItem_wizard ::
  "(Carrito \<Rightarrow> string) \<Rightarrow> int \<Rightarrow> int \<Rightarrow> CheckoutWizard \<Rightarrow> completion \<times> CheckoutWizard" where
  "removeItem_wizard stringify now index w =
     (if index < 0 \<or> index \<ge> int (length (itemsCart w)) then (Returned, w)
      else
        (case removeItem stringify now index (app w) of
           (Threw, a) \<Rightarrow> (Threw, w\<lparr>app := a\<rparr>)
         | (Returned, a) \<Rightarrow> (Returned, w\<lparr>app := a, itemsCart := cartItems a\<rparr>)))"

subsection \<open>Navigation\<close>

definition nextStep :: "CheckoutWizard \<Rightarrow> CheckoutWizard" where
  "nextStep w =
     (let w1 = clearErrors w in
      if currentStep w1 < totalSteps then w1\<lparr>currentStep := currentStep w1 + 1\<rparr> else w1)"

definition prevStep :: "CheckoutWizard \<Rightarrow> CheckoutWizard" where
  "prevStep w =
     (if currentStep w = 5 then w
      else
        (let w1 = clearErrors w in
         if currentStep w1 > 1 then w1\<lparr>currentStep := currentStep w1 - 1\<rparr> else w1))"

definition setPaymentMethod :: "string \<Rightarrow> CheckoutWizard \<Rightarrow> CheckoutWizard" where
  "setPaymentMethod v w = w\<lparr>form := (form w)\<lparr>medioPago := v\<rparr>\<rparr>"

definition setExceptionNIT :: "string \<Rightarrow> CheckoutWizard \<Rightarrow> CheckoutWizard" where
  "setExceptionNIT v w = w\<lparr>form := (form w)\<lparr>excepcionNIT := v\<rparr>\<rparr>"

definition handleProcessPaymentClick :: "CheckoutWizard \<Rightarrow> CheckoutWizard" where
  "handleProcessPaymentClick w =
     (if processCardPayments then nextStep w
      else nextStep (w\<lparr>form := (form w)\<lparr>medioPago := ''Q''\<rparr>\<rparr>))"

subsection \<open>Validation\<close>

text \<open>
  The test of \<^verbatim>\<open>/^[^\s@]+@[^\s@]+\.[^\s@]+$/\<close>. No class admits \<open>@\<close>, so the first
  part is what precedes the first \<open>@\<close>; what follows must be free of white space and
  \<open>@\<close> and have a dot that is neither its first nor its last character.
\<close>

definition emailRegex_test :: "string \<Rightarrow> bool" where
  "emailRegex_test s =
     (let local = takeWhile (\<lambda>c. c \<noteq> CHR ''@'') s;
          rest = dropWhile (\<lambda>c. c \<noteq> CHR ''@'') s
      in local \<noteq> [] \<and> \<not> has_white_space local \<and> rest \<noteq> []
         \<and> \<not> has_white_space (tl rest) \<and> CHR ''@'' \<notin> set (tl rest)
         \<and> CHR ''.'' \<in> set (butlast (tl (tl rest))))"

definition validateBillingShipping :: "CheckoutWizard \<Rightarrow> bool \<times> CheckoutWizard" where
  "validateBillingShipping w =
     (let email = correoElectronico (form w);
          companyName = razonSocial (form w);
          documentSIN = documentoSIN (form w)
      in if trim email = [] then (False, addError ''El correo electronico es obligatorio'' w)
         else if \<not> emailRegex_test email
         then (False, addError ''El correo electronico no tiene un formato valido'' w)
         else if hasCommissions w then
           (if trim companyName = [] then (False, addError ''La Razon Social es obligatoria'' w)
            else if trim documentSIN = []
            then (False, addError ''El numero de documento es obligatorio'' w)
            else (True, w))
         else (True, w))"

definition validateCurrentStep :: "CheckoutWizard \<Rightarrow> bool \<times> CheckoutWizard" where
  "validateCurrentStep w =
     (let w0 = clearErrors w in
      if currentStep w0 = 1 then
        (if \<not> hasItems w0 then (False, addError ''El carrito esta vacio'' w0) else (True, w0))
      else if currentStep w0 = 2 then
        (if medioPago (form w0) = []
         then (False, addError ''Debe seleccionar un metodo de pago'' w0)
         else (True, w0))
      else if currentStep w0 = 3 then validateBillingShipping w0
      else (True, w0))"

subsection \<open>The NIT sub-step\<close>

text \<open>
  \<open>validateNIT\<close> gives the new state and, when it calls the backend, the document
  number sent to \<open>verifyNIT\<close>. The two callbacks of the subscription follow.
\<close>

definition validateNIT :: "CheckoutWizard \<Rightarrow> CheckoutWizard \<times> string option" where
  "validateNIT w =
     (let documentType = tipoDocumento (form w);
          documentSIN = documentoSIN (form w);
          exceptionNIT = excepcionNIT (form w)
      in if documentType \<noteq> 5 then (nextStep w, None)
         else if documentSIN \<in> set [''99001'', ''99002'', ''99003''] then (nextStep w, None)
         else if exceptionNIT = ''true'' then (nextStep w, None)
         else (w\<lparr>loading := True\<rparr>, Some documentSIN))"

definition verifyNIT_next :: "NITResponse option \<Rightarrow> CheckoutWizard \<Rightarrow> CheckoutWizard" where
  "verifyNIT_next response w =
     (if envelope_data response = Some ''true'' then nextStep (w\<lparr>loading := False\<rparr>)
      else
        (let w1 = w\<lparr>showExceptionNIT := True\<rparr>;
             w2 = addError
                    ''NIT invalido. Confirme si se realiza Excepcion de registro con ese NIT'' w1;
             w3 = w2\<lparr>loading := False\<rparr>
         in if excepcionNIT (form w3) = ''true'' then nextStep w3 else w3))"

definition verifyNIT_error :: "thrown \<Rightarrow> CheckoutWizard \<Rightarrow> CheckoutWizard" where
  "verifyNIT_error err w = (handleApiError err ''Error al validar NIT'' w)\<lparr>loading := False\<rparr>"

definition handleNextStep :: "CheckoutWizard \<Rightarrow> CheckoutWizard \<times> string option" where
  "handleNextStep w =
     (let (isValid, w1) = validateCurrentStep w in
      if \<not> isValid then (w1, None)
      else if currentStep w1 = 3 \<and> hasCommissions w1 \<and> tipoDocumento (form w1) = 5
      then validateNIT w1
      else (nextStep w1, None))"

definition changeBillingDataMode :: "bool \<Rightarrow> CheckoutWizard \<Rightarrow> CheckoutWizard" where
  "changeBillingDataMode unNamed w =
     (if unNamed then
        w\<lparr>form := (form w)\<lparr>sinNombre := ''SI'', razonSocial := ''CONTROL TRIBUTARIO'',
                             tipoDocumento := 5, documentoSIN := ''99002'',
                             complementoSIN := '''', excepcionNIT := ''false''\<rparr>,
          showExceptionNIT := False\<rparr>
      else
        w\<lparr>form := (form w)\<lparr>sinNombre := ''NO'', razonSocial := '''', documentoSIN := '''',
                             complementoSIN := ''''\<rparr>\<rparr>)"

subsection \<open>Payment submission\<close>

text \<open>
  \<open>processPayment\<close> runs its observable chain to the end: the guard and the two final
  validations, \<open>generate\<close>, the \<open>switchMap\<close> that assembles the request and calls the
  backend, the \<open>tap\<close> on the response or the \<open>catchError\<close> handler, and \<open>finalize\<close>.
  It yields the events in the order in which they happen, and the final state.
\<close>

datatype pay_event =
    FingerprintGenerated string
  | GenerateQRcode PagoRequest

definition paymentData :: "FormValue \<Rightarrow> string \<Rightarrow> CheckoutWizard \<Rightarrow> PagoRequest" where
  "paymentData formValue fp w =
     \<lparr>pr_medioPago = medioPago formValue,
      itemsCarrito = itemsCart w,
      totalServicios = totalServices w,
      totalComisiones = totalCommissions w,
      pr_totalGeneral = totalGeneral_wizard w,
      pr_tipoDocumento = tipoDocumento formValue,
      pr_documentoSIN = documentoSIN formValue,
      pr_complementoSIN = complementoSIN formValue,
      pr_excepcionNIT = (if excepcionNIT formValue = ''true'' then ''1'' else ''0''),
      pr_razonSocial = razonSocial formValue,
      pr_correoElectronico = correoElectronico formValue,
      pr_numeroTelefono =
        (if numeroTelefono formValue = [] then ''0'' else numeroTelefono formValue),
      browserFingerprint = fp\<rparr>"

definition processPayment_tap :: "PagoResponse option \<Rightarrow> CheckoutWizard \<Rightarrow> CheckoutWizard" where
  "processPayment_tap response w =
     (case envelope_data response of
        Some d \<Rightarrow>
          w\<lparr>qrData := \<lparr>validity = validity d, qrImage = qrImage d\<rparr>,
            app := clearCart (app w),
            currentStep := 5\<rparr>
      | None \<Rightarrow> addError ''Error al procesar el pago'' w)"

definition processPayment ::
  "'c Browser \<Rightarrow> (PagoRequest \<Rightarrow> PagoResponse option outcome) \<Rightarrow> CheckoutWizard
     \<Rightarrow> pay_event list \<times> CheckoutWizard" where
  "processPayment b generateQRcode w =
     (if loading w then ([], w)
      else
        (let formValue = form w in
         if trim (correoElectronico formValue) = []
         then ([], addError ''Debe ingresar un correo electronico'' w)
         else if medioPago formValue \<noteq> ''Q''
         then ([], addError ''Metodo de pago no implementado'' w)
         else
           (let w1 = w\<lparr>loading := True\<rparr>;
                (fp, a) = generate b (app w1);
                w2 = w1\<lparr>app := a\<rparr>;
                request = paymentData formValue fp w2;
                w3 = (case generateQRcode request of
                        Next response \<Rightarrow> processPayment_tap response w2
                      | Error err \<Rightarrow>
                          handleApiError err
                            ''Error al procesar el pago. Intente nuevamente.'' w2)
            in ([FingerprintGenerated fp, GenerateQRcode request], w3\<lparr>loading := False\<rparr>))))"

subsection \<open>The component as a transition system\<close>

text \<open>
  What happens to the component between two renderings: one of its methods is called
  from the template, an answer or an error of the NIT verification arrives, or the user
  edits the form. \<open>checkout_step\<close> is the state after the event; a payment submission
  runs to the end of its chain.
\<close>

datatype 'c checkout_op =
    NgOnInit
  | RemoveItem "Carrito \<Rightarrow> string" int int
  | HandleProcessPaymentClick
  | HandleNextStep
  | VerifyNIT_next "NITResponse option"
  | VerifyNIT_error thrown
  | PrevStep
  | ChangeBillingDataMode bool
  | ProcessPayment "'c Browser" "PagoRequest \<Rightarrow> PagoResponse option outcome"
  | SetPaymentMethod string
  | SetExceptionNIT string
  | EditForm FormValue

fun checkout_step :: "'c checkout_op \<Rightarrow> CheckoutWizard \<Rightarrow> CheckoutWizard" where
  "checkout_step NgOnInit w = loadCart_wizard w"
| "checkout_step (RemoveItem stringify now index) w = snd (removeItem_wizard stringify now index w)"
| "checkout_step HandleProcessPaymentClick w = handleProcessPaymentClick w"
| "checkout_step HandleNextStep w = fst (handleNextStep w)"
| "checkout_step (VerifyNIT_next response) w = verifyNIT_next response w"
| "checkout_step (VerifyNIT_error err) w = verifyNIT_error err w"
| "checkout_step PrevStep w = prevStep w"
| "checkout_step (ChangeBillingDataMode unNamed) w = changeBillingDataMode unNamed w"
| "checkout_step (ProcessPayment b generateQRcode) w = snd (processPayment b generateQRcode w)"
| "checkout_step (SetPaymentMethod v) w = setPaymentMethod v w"
| "checkout_step (SetExceptionNIT v) w = setExceptionNIT v w"
| "checkout_step (EditForm formValue) w = w\<lparr>form := formValue\<rparr>"

subsection \<open>Concrete checkout states, browser and backend\<close>

definition example_form :: "string \<Rightarrow> string \<Rightarrow> string \<Rightarrow> FormValue" where
  "example_form email doc exc =
     \<lparr>medioPago = ''Q'', sinNombre = ''NO'', razonSocial = ''ACME SRL'', tipoDocumento = 5,
      documentoSIN = doc, complementoSIN = '''', excepcionNIT = exc,
      correoElectronico = email, numeroTelefono = ''''\<rparr>"

definition example_checkout :: "int \<Rightarrow> FormValue \<Rightarrow> CheckoutWizard" where
  "example_checkout step frm =
     \<lparr>currentStep = step, loading = False, errors = [], showExceptionNIT = False,
      itemsCart = [example_item ''Bs.'' ''CT-1''], form = frm,
      qrData = \<lparr>validity = '''', qrImage = ''''\<rparr>,
      app = example_app [example_item ''Bs.'' ''CT-1''],
      errorModal = example_errorModal\<rparr>"

text \<open>A browser with no cached fingerprint whose probes succeed, and one whose probes throw.\<close>

definition example_browser :: "string option \<Rightarrow> string Browser" where
  "example_browser components =
     \<lparr>Date_now = 1700000003000,
      JSON_parse_cache = (\<lambda>s. None),
      JSON_stringify_cache = (\<lambda>entry. ''fp:'' @ fc_fingerprint entry),
      collectComponents = components,
      sha256_hex = (\<lambda>c. Some (''a3f5'' @ c))\<rparr>"

definition example_qr :: QRData where
  "example_qr = \<lparr>validity = ''23:59'', qrImage = ''iVBORw0KGgo''\<rparr>"

definition backend_ok :: "PagoRequest \<Rightarrow> PagoResponse option outcome" where
  "backend_ok request = Next (Some \<lparr>success = True, data = Some example_qr\<rparr>)"


definition backend_down :: "PagoRequest \<Rightarrow> PagoResponse option outcome" where
  "backend_down request = Error (HttpErrorResponse None)"

text \<open>The request that \<open>processPayment\<close> sends from a state, and whether it is granted.\<close>

definition payment_request :: "'c Browser \<Rightarrow> CheckoutWizard \<Rightarrow> PagoRequest" where
  "payment_request b w =
     paymentData (form w) (fst (generate b (app w)))
       (w\<lparr>loading := True, app := snd (generate b (app w))\<rparr>)"

definition payment_granted ::
  "'c Browser \<Rightarrow> (PagoRequest \<Rightarrow> PagoResponse option outcome) \<Rightarrow> CheckoutWizard
     \<Rightarrow> QRData option" where
  "payment_granted b generateQRcode w =
     (if loading w \<or> trim (correoElectronico (form w)) = [] \<or> medioPago (form w) \<noteq> ''Q''
      then None
      else (case generateQRcode (payment_request b w) of
              Next response \<Rightarrow> envelope_data response
            | Error err \<Rightarrow> None))"

text \<open>A debt backend with one contract whose debts query fails in transport.\<close>

definition example_api_debts_down :: CobranzaApi where
  "example_api_debts_down =
     example_api\<lparr>consultCollectionDebts := (\<lambda>request alias. Error (HttpErrorResponse None))\<rparr>"

section \<open>Verified properties\<close>

subsection \<open>White space\<close>

text \<open>
  \<open>trim\<close> removes each of the 25 white-space characters at both ends and nothing
  else, and the address pattern refuses each of them on either side of the \<open>@\<close>.
\<close>

lemma trim_white_space:
  "trim (concat white_space @ ''a b'' @ concat white_space) = ''a b''"
  by (simp add: trim_def strip.simps leading_space_def white_space_def)

lemma trim_blank_text: "trim blank_text = []"
  by (simp add: blank_text_def trim_def strip.simps leading_space_def white_space_def)

lemma trim_keeps_inner: "trim ''  ACME  SRL  '' = ''ACME  SRL''"
  by (simp add: trim_def strip.simps leading_space_def white_space_def)

lemma emailRegex_test_white_space:
  "list_all (\<lambda>ws. \<not> emailRegex_test (''a'' @ ws @ ''b@example.org'')
                 \<and> \<not> emailRegex_test (''ab@exam'' @ ws @ ''ple.org'')) white_space"
  by (simp add: emailRegex_test_def leading_space_def white_space_def)

lemma emailRegex_test_examples:
  "emailRegex_test ''ana@example.org''" "emailRegex_test ''a.b@c.d.e''"
  "\<not> emailRegex_test ''ana@example''" "\<not> emailRegex_test ''ana@.org''"
  "\<not> emailRegex_test ''ana@example.''" "\<not> emailRegex_test ''@example.org''"
  "\<not> emailRegex_test ''ana@b@example.org''" "\<not> emailRegex_test ''''"
  by (simp_all add: emailRegex_test_def leading_space_def white_space_def)

subsection \<open>C1: cascading debt selection\<close>

lemma length_select_loop:
  "0 \<le> i \<Longrightarrow> index < int (length sd) \<Longrightarrow> length (select_loop i index sd) = length sd"
proof (induction i index sd rule: select_loop.induct)
  case (1 i index sd)
  show ?case
  proof (cases "i \<le> index")
    case True
    with "1.prems" have "nat i < length sd" by arith
    with "1.prems" have len: "length (array_store sd i True) = length sd"
      by (simp add: array_store_def)
    from True "1.IH" "1.prems" len show ?thesis
      by (subst select_loop.simps) simp
  next
    case False
    then show ?thesis by (subst select_loop.simps) simp
  qed
qed

lemma nth_select_loop:
  "0 \<le> i \<Longrightarrow> index < int (length sd) \<Longrightarrow> k < length sd \<Longrightarrow>
   select_loop i index sd ! k = (if i \<le> int k \<and> int k \<le> index then True else sd ! k)"
proof (induction i index sd rule: select_loop.induct)
  case (1 i index sd)
  show ?case
  proof (cases "i \<le> index")
    case True
    with "1.prems" have in_range: "nat i < length sd" by arith
    with "1.prems" have len: "length (array_store sd i True) = length sd"
      by (simp add: array_store_def)
    have step: "select_loop (i + 1) index (array_store sd i True) ! k =
          (if i + 1 \<le> int k \<and> int k \<le> index then True else array_store sd i True ! k)"
      using "1.IH" [OF True] "1.prems" len by simp
    have "array_store sd i True ! k = (if int k = i then True else sd ! k)"
      using in_range "1.prems" by (auto simp: array_store_def nth_list_update)
    with step True show ?thesis
      by (subst select_loop.simps) auto
  next
    case False
    then show ?thesis by (subst select_loop.simps) auto
  qed
qed

lemma length_deselect_loop: "length (deselect_loop i sd) = length sd"
proof (induction i sd rule: deselect_loop.induct)
  case (1 i sd)
  show ?case
  proof (cases "i < int (length sd)")
    case True
    have len: "length (array_store sd i False) = length sd"
    proof (cases "i < 0")
      case True
      then show ?thesis by (simp add: array_store_def)
    next
      case False
      with \<open>i < int (length sd)\<close> have "nat i < length sd" by arith
      with False show ?thesis by (simp add: array_store_def)
    qed
    from True "1.IH" len show ?thesis
      by (subst deselect_loop.simps) simp
  next
    case False
    then show ?thesis by (subst deselect_loop.simps) simp
  qed
qed

lemma nth_deselect_loop:
  "0 \<le> i \<Longrightarrow> k < length sd \<Longrightarrow>
   deselect_loop i sd ! k = (if i \<le> int k then False else sd ! k)"
proof (induction i sd rule: deselect_loop.induct)
  case (1 i sd)
  show ?case
  proof (cases "i < int (length sd)")
    case True
    with "1.prems" have in_range: "nat i < length sd" by arith
    with "1.prems" have len: "length (array_store sd i False) = length sd"
      by (simp add: array_store_def)
    have step: "deselect_loop (i + 1) (array_store sd i False) ! k =
          (if i + 1 \<le> int k then False else array_store sd i False ! k)"
      using "1.IH" [OF True] "1.prems" len by simp
    have "array_store sd i False ! k = (if int k = i then False else sd ! k)"
      using in_range "1.prems" by (auto simp: array_store_def nth_list_update)
    with step True show ?thesis
      by (subst deselect_loop.simps) auto
  next
    case False
    with "1.prems" show ?thesis by (subst deselect_loop.simps) auto
  qed
qed

text \<open>
  Claim C1. For every sequence of flags and every index \<open>N\<close> within it, whatever the
  flags were before: \<open>toggleDeuda N true\<close> keeps the length, makes the flags at
  \<open>0..N\<close> true and leaves the later ones as they were; \<open>toggleDeuda N false\<close>
  keeps the length, makes the flags at \<open>N..end\<close> false and leaves the earlier ones as
  they were.
\<close>

theorem toggleDeuda_cascade:
  assumes "0 \<le> N" and "N < int (length (selectedDebts w))"
  shows "length (selectedDebts (toggleDeuda N True w)) = length (selectedDebts w)
       \<and> (\<forall>k < length (selectedDebts w).
            selectedDebts (toggleDeuda N True w) ! k
              = (if int k \<le> N then True else selectedDebts w ! k))
       \<and> length (selectedDebts (toggleDeuda N False w)) = length (selectedDebts w)
       \<and> (\<forall>k < length (selectedDebts w).
            selectedDebts (toggleDeuda N False w) ! k
              = (if N \<le> int k then False else selectedDebts w ! k))"
  using assms
  by (simp add: toggleDeuda_def length_select_loop nth_select_loop length_deselect_loop
        nth_deselect_loop)


theorem toggleDeuda_cascade_witness:
  "(0::int) \<le> 2
   \<and> 2 < int (length (selectedDebts (example_cobranza [False, True, False, True, False])))
   \<and> selectedDebts (toggleDeuda 2 True (example_cobranza [False, True, False, True, False])) ! 0
       = True
   \<and> selectedDebts (toggleDeuda 2 True (example_cobranza [False, True, False, True, False])) ! 4
       = False
   \<and> selectedDebts (toggleDeuda 2 False (example_cobranza [False, True, False, True, False])) ! 3
       = False
   \<and> selectedDebts (toggleDeuda 2 False (example_cobranza [False, True, False, True, False])) ! 1
       = True"
proof -
  let ?w = "example_cobranza [False, True, False, True, False]"
  have flags: "selectedDebts ?w = [False, True, False, True, False]"
    by (simp add: example_cobranza_def)
  have h1: "(0::int) \<le> 2" by simp
  have h2: "2 < int (length (selectedDebts ?w))" by (simp add: flags)
  note inst = toggleDeuda_cascade [OF h1 h2]
  from inst have sel: "\<forall>k < length (selectedDebts ?w).
      selectedDebts (toggleDeuda 2 True ?w) ! k
        = (if int k \<le> 2 then True else selectedDebts ?w ! k)"
    by (rule conjunct1 [OF conjunct2])
  from inst have desel: "\<forall>k < length (selectedDebts ?w).
      selectedDebts (toggleDeuda 2 False ?w) ! k
        = (if 2 \<le> int k then False else selectedDebts ?w ! k)"
    by (rule conjunct2 [OF conjunct2 [OF conjunct2]])
  have a: "selectedDebts (toggleDeuda 2 True ?w) ! 0 = True"
    using sel [rule_format, of 0] by (simp add: flags)
  have b: "selectedDebts (toggleDeuda 2 True ?w) ! 4 = False"
    using sel [rule_format, of 4] by (simp add: flags)
  have c: "selectedDebts (toggleDeuda 2 False ?w) ! 3 = False"
    using desel [rule_format, of 3] by (simp add: flags)
  have d: "selectedDebts (toggleDeuda 2 False ?w) ! 1 = True"
    using desel [rule_format, of 1] by (simp add: flags)
  from h1 h2 a b c d show ?thesis by blast
qed

subsection \<open>Cart Store: shared facts\<close>

lemma keys_differ: "STORAGE_KEY \<noteq> SESSION_KEY" "SESSION_KEY \<noteq> STORAGE_KEY"
  by (simp_all add: STORAGE_KEY_def SESSION_KEY_def)

lemma setItem_Some:
  "setItem key v st = Some st'
     \<Longrightarrow> st' = st\<lparr>sessionStorage := (sessionStorage st)(key \<mapsto> v)\<rparr>"
  by (simp add: setItem_def split: if_splits)

lemma saveCart_Some: "saveCart stringify st = Some st' \<Longrightarrow> cart st' = cart st"
  by (auto simp: saveCart_def split: option.splits dest: setItem_Some)

lemma getOrCreateSessionId_Some:
  "getOrCreateSessionId now rnd st = Some (sid, st1) \<Longrightarrow> cart st1 = cart st"
  by (auto simp: getOrCreateSessionId_def Let_def split: if_splits option.splits
        dest: setItem_Some)

lemma cartItems_clearCart: "cartItems (clearCart st) = []"
  by (simp add: cartItems_def clearCart_def)

lemma cart_addItem:
  "cart (snd (addItem stringify now rnd item st))
     = (case getOrCreateSessionId now rnd st of
          None \<Rightarrow> cart st
        | Some (sid, st1) \<Rightarrow>
            Some \<lparr>sessionId = SessionString sid,
                  items = cartItems st @ [item],
                  createdAt = (case cart st of Some c \<Rightarrow> createdAt c | None \<Rightarrow> now),
                  updatedAt = now\<rparr>)"
proof (cases "getOrCreateSessionId now rnd st")
  case None
  then show ?thesis by (simp add: addItem_def)
next
  case (Some p)
  obtain sid st1 where p: "p = (sid, st1)" by (cases p)
  let ?newCart = "\<lparr>sessionId = SessionString sid,
                    items = (case cart st of Some c \<Rightarrow> items c @ [item] | None \<Rightarrow> [item]),
                    createdAt = (case cart st of Some c \<Rightarrow> createdAt c | None \<Rightarrow> now),
                    updatedAt = now\<rparr>"
  have its: "(case cart st of Some c \<Rightarrow> items c @ [item] | None \<Rightarrow> [item])
               = cartItems st @ [item]"
    by (simp add: cartItems_def split: option.splits)
  have "cart (snd (addItem stringify now rnd item st)) = Some ?newCart"
  proof (cases "saveCart stringify (st1\<lparr>cart := Some ?newCart\<rparr>)")
    case None
    with Some p show ?thesis by (simp add: addItem_def Let_def)
  next
    case (Some st3)
    from saveCart_Some [OF Some] have "cart st3 = Some ?newCart" by simp
    with Some \<open>getOrCreateSessionId now rnd st = Some p\<close> p show ?thesis
      by (simp add: addItem_def Let_def)
  qed
  with Some p its show ?thesis by simp
qed

lemma cartItems_addItem:
  "cartItems (snd (addItem stringify now rnd item st))
     = (if getOrCreateSessionId now rnd st = None then cartItems st
        else cartItems st @ [item])"
  by (simp add: cartItems_def [of "snd (addItem stringify now rnd item st)"] cart_addItem
        split: option.splits)
     (simp add: cartItems_def)

lemma set_filter_by_index: "set (filter_by_index p xs) \<subseteq> set xs"
  by (auto simp: filter_by_index_def in_set_enumerate_eq)

lemma cart_removeItem:
  "cart (snd (removeItem stringify now index st))
     = (case cart st of
          None \<Rightarrow> None
        | Some c \<Rightarrow>
            if filter_by_index (\<lambda>i. i \<noteq> index) (items c) = [] then None
            else Some (c\<lparr>items := filter_by_index (\<lambda>i. i \<noteq> index) (items c),
                          updatedAt := now\<rparr>))"
proof (cases "cart st")
  case None
  then show ?thesis by (simp add: removeItem_def)
next
  case (Some c)
  let ?new = "filter_by_index (\<lambda>i. i \<noteq> index) (items c)"
  let ?st1 = "st\<lparr>cart := Some (c\<lparr>items := ?new, updatedAt := now\<rparr>)\<rparr>"
  show ?thesis
  proof (cases "?new = []")
    case True
    with Some show ?thesis by (simp add: removeItem_def clearCart_def)
  next
    case False
    show ?thesis
    proof (cases "saveCart stringify ?st1")
      case None
      with Some False show ?thesis by (simp add: removeItem_def Let_def)
    next
      case (Some st2)
      from saveCart_Some [OF Some] have "cart st2 = cart ?st1" .
      with Some \<open>cart st = Some c\<close> False show ?thesis
        by (simp add: removeItem_def Let_def)
    qed
  qed
qed

lemma cartItems_removeItem:
  "set (cartItems (snd (removeItem stringify now index st))) \<subseteq> set (cartItems st)"
  by (simp add: cartItems_def cart_removeItem set_filter_by_index split: option.splits)

lemma cartItems_replaceItem:
  "cartItems (snd (replaceItem stringify now index newItem st)) = cartItems st
   \<or> (cartItems st \<noteq> []
       \<and> set (cartItems (snd (replaceItem stringify now index newItem st)))
            \<subseteq> insert newItem (set (cartItems st)))"
proof (cases "cart st")
  case None
  then show ?thesis by (simp add: replaceItem_def)
next
  case (Some c)
  show ?thesis
  proof (cases "index < 0 \<or> index \<ge> int (length (items c))")
    case True
    with Some show ?thesis by (simp add: replaceItem_def)
  next
    case False
    let ?newCart = "c\<lparr>items := (items c)[nat index := newItem], updatedAt := now\<rparr>"
    let ?st1 = "st\<lparr>cart := Some ?newCart\<rparr>"
    have "cart (snd (replaceItem stringify now index newItem st)) = Some ?newCart"
    proof (cases "saveCart stringify ?st1")
      case None
      with Some False show ?thesis by (simp add: replaceItem_def Let_def)
    next
      case (Some st2)
      from saveCart_Some [OF Some] have "cart st2 = cart ?st1" .
      with Some \<open>cart st = Some c\<close> False show ?thesis
        by (simp add: replaceItem_def Let_def)
    qed
    then have its: "cartItems (snd (replaceItem stringify now index newItem st))
        = (items c)[nat index := newItem]"
      by (simp add: cartItems_def)
    from False have "items c \<noteq> []" by auto
    moreover have "set ((items c)[nat index := newItem]) \<subseteq> insert newItem (set (items c))"
      by (rule set_update_subset_insert)
    ultimately show ?thesis using Some its
      by (simp add: cartItems_def)
  qed
qed

lemma single_currency_subset:
  "single_currency ys \<Longrightarrow> set xs \<subseteq> set ys \<Longrightarrow> single_currency xs"
  unfolding single_currency_def by blast

lemma single_currency_insert:
  assumes "single_currency ys" and "ys \<noteq> []"
    and "abreviacionMoneda (hd ys) = abreviacionMoneda x"
    and "set xs \<subseteq> insert x (set ys)"
  shows "single_currency xs"
proof -
  from assms(2) have "hd ys \<in> set ys" by simp
  with assms(1,3) have "\<forall>b \<in> set ys. abreviacionMoneda b = abreviacionMoneda x"
    unfolding single_currency_def by metis
  with assms(1,4) show ?thesis
    unfolding single_currency_def by (metis insert_iff subsetD)
qed

lemma canAdd_iff:
  "canAdd (canAddItemWithCurrency moneda st)
     = (cartItems st = [] \<or> abreviacionMoneda (hd (cartItems st)) = moneda)"
  by (simp add: canAddItemWithCurrency_def split: list.splits)

lemma example_app_accepts: "accepts (example_app its) store key v"
  by (simp add: example_app_def)

lemma example_app_session:
  "getOrCreateSessionId now rnd (example_app its)
     = Some (''1700000000000-k3j9x0q2a'', example_app its)"
  by (simp add: getOrCreateSessionId_def example_app_def keys_differ truthy_def)

lemma example_app_items: "cartItems (example_app its) = its"
  by (simp add: cartItems_def example_app_def example_cart_def)

text \<open>
  Claim C3, as amended. From a cart whose items share one currency, \<open>removeItem\<close> and
  \<open>clearCart\<close> give such a cart for every argument; \<open>addItem\<close> and
  \<open>replaceItem\<close> give such a cart whenever the new item's currency passes
  \<open>canAddItemWithCurrency\<close>, the check that the callers make first. The two methods
  themselves compare no currencies. The cart meant is the one held by the service after
  the call, also when the write to the session storage threw.
\<close>

theorem cart_currency_invariant_amended:
  assumes "single_currency (cartItems st)"
  shows "single_currency (cartItems (snd (removeItem stringify now index st)))
       \<and> single_currency (cartItems (clearCart st))
       \<and> (canAdd (canAddItemWithCurrency (abreviacionMoneda item) st) \<longrightarrow>
            single_currency (cartItems (snd (addItem stringify now rnd item st)))
          \<and> single_currency (cartItems (snd (replaceItem stringify now index item st))))"
proof (intro conjI impI)
  show "single_currency (cartItems (snd (removeItem stringify now index st)))"
    using assms cartItems_removeItem by (rule single_currency_subset)
  show "single_currency (cartItems (clearCart st))"
    by (simp add: cartItems_clearCart single_currency_def)
next
  assume ok: "canAdd (canAddItemWithCurrency (abreviacionMoneda item) st)"
  show "single_currency (cartItems (snd (addItem stringify now rnd item st)))"
  proof (cases "cartItems st = []")
    case True
    then show ?thesis by (simp add: cartItems_addItem single_currency_def)
  next
    case False
    with ok have cur: "abreviacionMoneda (hd (cartItems st)) = abreviacionMoneda item"
      by (simp add: canAdd_iff)
    have sub: "set (cartItems (snd (addItem stringify now rnd item st)))
                 \<subseteq> insert item (set (cartItems st))"
      by (auto simp: cartItems_addItem)
    from assms False cur sub show ?thesis
      by (rule single_currency_insert)
  qed
  show "single_currency (cartItems (snd (replaceItem stringify now index item st)))"
    using cartItems_replaceItem [of stringify now index item st]
  proof
    assume "cartItems (snd (replaceItem stringify now index item st)) = cartItems st"
    with assms show ?thesis by simp
  next
    assume a: "cartItems st \<noteq> []
       \<and> set (cartItems (snd (replaceItem stringify now index item st)))
            \<subseteq> insert item (set (cartItems st))"
    with ok have cur: "abreviacionMoneda (hd (cartItems st)) = abreviacionMoneda item"
      by (simp add: canAdd_iff)
    from a have ne: "cartItems st \<noteq> []"
      and sub: "set (cartItems (snd (replaceItem stringify now index item st)))
            \<subseteq> insert item (set (cartItems st))"
      by simp_all
    from assms ne cur sub show ?thesis
      by (rule single_currency_insert)
  qed
qed

text \<open>
  Claim C3 as stated fails: \<open>addItem\<close> appends an item in USD to a cart in Bs., and
  the resulting cart holds two currencies.
\<close>

theorem cart_currency_invariant_counterexample:
  "single_currency (cartItems (example_app [example_item ''Bs.'' ''CT-1'']))
   \<and> \<not> single_currency
        (cartItems (snd (addItem example_stringify 1700000001000 ''r4nd0mxyz''
                           (example_item ''USD'' ''CT-2'')
                           (example_app [example_item ''Bs.'' ''CT-1'']))))"
  by (simp add: single_currency_def cartItems_addItem example_app_session example_app_items)
     (simp add: example_item_def example_item_json_def)

theorem cart_currency_invariant_amended_witness:
  "single_currency (cartItems (example_app [example_item ''Bs.'' ''CT-1'']))
   \<and> canAdd (canAddItemWithCurrency (abreviacionMoneda (example_item ''Bs.'' ''CT-2''))
              (example_app [example_item ''Bs.'' ''CT-1'']))
   \<and> single_currency
        (cartItems (snd (addItem example_stringify 1700000001000 ''r4nd0mxyz''
                           (example_item ''Bs.'' ''CT-2'')
                           (example_app [example_item ''Bs.'' ''CT-1'']))))
   \<and> single_currency
        (cartItems (snd (replaceItem example_stringify 1700000001000 0
                           (example_item ''Bs.'' ''CT-2'')
                           (example_app [example_item ''Bs.'' ''CT-1'']))))"
proof -
  let ?st = "example_app [example_item ''Bs.'' ''CT-1'']"
  let ?item = "example_item ''Bs.'' ''CT-2''"
  have its: "cartItems ?st = [example_item ''Bs.'' ''CT-1'']"
    by (simp add: example_app_items)
  have inv: "single_currency (cartItems ?st)"
    by (simp add: its single_currency_def)
  have ok: "canAdd (canAddItemWithCurrency (abreviacionMoneda ?item) ?st)"
    by (simp add: canAdd_iff its) (simp add: example_item_def example_item_json_def)
  from cart_currency_invariant_amended [OF inv, of example_stringify 1700000001000 0 ?item
      "''r4nd0mxyz''"] inv ok
  show ?thesis by blast
qed

text \<open>
  Claim C4, as amended. When the cart holds exactly one item, \<open>removeItem\<close> of it
  returns, sets the cart to \<open>null\<close> and removes the persisted cart, so \<open>items()\<close>
  is empty; the stored session id stays as it was, and the next \<open>addItem\<close> reuses it.
  A new session id is generated only when none (or an empty one) is stored; the cart then
  carries it if the browser accepts its write, and otherwise \<open>addItem\<close> returns
  \<open>false\<close> and the cart stays \<open>null\<close>.
\<close>

theorem removeItem_last_item_amended:
  assumes "cart st = Some c" and "items c = [x]"
  shows "fst (removeItem stringify now 0 st) = Returned
       \<and> cart (snd (removeItem stringify now 0 st)) = None
       \<and> cartItems (snd (removeItem stringify now 0 st)) = []
       \<and> sessionStorage (snd (removeItem stringify now 0 st)) STORAGE_KEY = None
       \<and> sessionStorage (snd (removeItem stringify now 0 st)) SESSION_KEY
            = sessionStorage st SESSION_KEY
       \<and> (truthy (sessionStorage st SESSION_KEY) \<longrightarrow>
            sessionId (the (cart (snd (addItem stringify now' rnd item
                                         (snd (removeItem stringify now 0 st))))))
              = SessionString (the (sessionStorage st SESSION_KEY)))
       \<and> (\<not> truthy (sessionStorage st SESSION_KEY) \<longrightarrow>
            (accepts st (sessionStorage (clearCart st)) SESSION_KEY
                 (generateSessionId now' rnd) \<longrightarrow>
               sessionId (the (cart (snd (addItem stringify now' rnd item
                                            (snd (removeItem stringify now 0 st))))))
                 = SessionString (generateSessionId now' rnd))
          \<and> (\<not> accepts st (sessionStorage (clearCart st)) SESSION_KEY
                   (generateSessionId now' rnd) \<longrightarrow>
               addItem stringify now' rnd item (snd (removeItem stringify now 0 st))
                 = (False, clearCart st)))"
proof -
  have "filter_by_index (\<lambda>i. i \<noteq> 0) (items c) = []"
    using assms(2) by (simp add: filter_by_index_def)
  with assms(1) have rm: "removeItem stringify now 0 st = (Returned, clearCart st)"
    by (simp add: removeItem_def)
  have sid: "sessionStorage (clearCart st) SESSION_KEY = sessionStorage st SESSION_KEY"
    by (simp add: clearCart_def keys_differ)
  have acc: "accepts (clearCart st) = accepts st"
    by (simp add: clearCart_def)
  have reuse: "truthy (sessionStorage st SESSION_KEY) \<Longrightarrow>
      getOrCreateSessionId now' rnd (clearCart st)
        = Some (the (sessionStorage st SESSION_KEY), clearCart st)"
    by (simp add: getOrCreateSessionId_def sid)
  have fresh: "\<not> truthy (sessionStorage st SESSION_KEY) \<Longrightarrow>
      accepts st (sessionStorage (clearCart st)) SESSION_KEY (generateSessionId now' rnd) \<Longrightarrow>
      getOrCreateSessionId now' rnd (clearCart st)
        = Some (generateSessionId now' rnd,
                (clearCart st)\<lparr>sessionStorage :=
                   (sessionStorage (clearCart st))
                     (SESSION_KEY \<mapsto> generateSessionId now' rnd)\<rparr>)"
    by (simp add: getOrCreateSessionId_def sid setItem_def acc Let_def)
  have refused: "\<not> truthy (sessionStorage st SESSION_KEY) \<Longrightarrow>
      \<not> accepts st (sessionStorage (clearCart st)) SESSION_KEY (generateSessionId now' rnd) \<Longrightarrow>
      getOrCreateSessionId now' rnd (clearCart st) = None"
    by (simp add: getOrCreateSessionId_def sid setItem_def acc Let_def)
  show ?thesis
    unfolding rm
    by (simp add: cartItems_clearCart sid cart_addItem reuse fresh)
       (simp add: clearCart_def addItem_def refused [unfolded clearCart_def])
qed

text \<open>
  Claim C4 as stated fails: after the only item is removed, the next \<open>addItem\<close> stamps
  the cart with the session id that was stored before, not with a newly generated one.
\<close>

theorem removeItem_last_item_counterexample:
  "cartItems (example_app [example_item ''Bs.'' ''CT-1'']) = [example_item ''Bs.'' ''CT-1'']
   \<and> sessionStorage (example_app [example_item ''Bs.'' ''CT-1'']) SESSION_KEY
       = Some ''1700000000000-k3j9x0q2a''
   \<and> cartItems (snd (removeItem example_stringify 1700000001000 0
                       (example_app [example_item ''Bs.'' ''CT-1'']))) = []
   \<and> sessionId (the (cart (snd (addItem example_stringify 1700000002000 ''zzzzzzzzz''
                                  (example_item ''Bs.'' ''CT-2'')
                                  (snd (removeItem example_stringify 1700000001000 0
                                          (example_app [example_item ''Bs.'' ''CT-1''])))))))
       = SessionString ''1700000000000-k3j9x0q2a''
   \<and> generateSessionId 1700000002000 ''zzzzzzzzz'' = ''1700000002000-zzzzzzzzz''"
proof -
  let ?st = "example_app [example_item ''Bs.'' ''CT-1'']"
  have c: "cart ?st = Some (example_cart [example_item ''Bs.'' ''CT-1''])"
    by (simp add: example_app_def)
  have rm: "removeItem example_stringify 1700000001000 0 ?st = (Returned, clearCart ?st)"
    by (simp add: removeItem_def c filter_by_index_def example_cart_def)
  have st: "sessionStorage ?st SESSION_KEY = Some ''1700000000000-k3j9x0q2a''"
    by (simp add: example_app_def keys_differ)
  have a: "cartItems ?st = [example_item ''Bs.'' ''CT-1'']"
    by (simp add: example_app_items)
  have s: "getOrCreateSessionId 1700000002000 ''zzzzzzzzz'' (clearCart ?st)
      = Some (''1700000000000-k3j9x0q2a'', clearCart ?st)"
    by (simp add: getOrCreateSessionId_def clearCart_def st keys_differ truthy_def)
  have b: "sessionId (the (cart (snd (addItem example_stringify 1700000002000 ''zzzzzzzzz''
                                  (example_item ''Bs.'' ''CT-2'') (clearCart ?st)))))
       = SessionString ''1700000000000-k3j9x0q2a''"
    by (simp add: cart_addItem s)
  have g: "generateSessionId 1700000002000 ''zzzzzzzzz'' = ''1700000002000-zzzzzzzzz''"
    by (simp add: generateSessionId_def number_to_string_def digits_of.simps digit_char_def)
  show ?thesis unfolding rm using a b st g by (simp add: cartItems_clearCart)
qed

theorem removeItem_last_item_amended_witness:
  "cart (example_app [example_item ''Bs.'' ''CT-1''])
     = Some (example_cart [example_item ''Bs.'' ''CT-1''])
   \<and> items (example_cart [example_item ''Bs.'' ''CT-1'']) = [example_item ''Bs.'' ''CT-1'']
   \<and> truthy (sessionStorage (example_app [example_item ''Bs.'' ''CT-1'']) SESSION_KEY)
   \<and> fst (removeItem example_stringify 1700000001000 0
            (example_app [example_item ''Bs.'' ''CT-1''])) = Returned
   \<and> cartItems (snd (removeItem example_stringify 1700000001000 0
                       (example_app [example_item ''Bs.'' ''CT-1'']))) = []
   \<and> sessionId (the (cart (snd (addItem example_stringify 1700000002000 ''zzzzzzzzz''
                                  (example_item ''Bs.'' ''CT-2'')
                                  (snd (removeItem example_stringify 1700000001000 0
                                          (example_app [example_item ''Bs.'' ''CT-1''])))))))
       = SessionString (the (sessionStorage (example_app [example_item ''Bs.'' ''CT-1''])
                               SESSION_KEY))"
proof -
  let ?st = "example_app [example_item ''Bs.'' ''CT-1'']"
  have c: "cart ?st = Some (example_cart [example_item ''Bs.'' ''CT-1''])"
    by (simp add: example_app_def)
  have i: "items (example_cart [example_item ''Bs.'' ''CT-1'']) = [example_item ''Bs.'' ''CT-1'']"
    by (simp add: example_cart_def)
  have t: "truthy (sessionStorage ?st SESSION_KEY)"
    by (simp add: example_app_def keys_differ truthy_def)
  from removeItem_last_item_amended [OF c i, of example_stringify 1700000001000
      1700000002000 "''zzzzzzzzz''" "example_item ''Bs.'' ''CT-2''"] c i t
  show ?thesis by blast
qed










lemma filter_by_index_out_of_range:
  assumes "index < 0 \<or> int (length xs) \<le> index"
  shows "filter_by_index (\<lambda>i. i \<noteq> index) xs = xs"
proof -
  have "\<forall>p \<in> set (enumerate 0 xs). (\<lambda>(i, x). int i \<noteq> index) p"
    using assms by (auto simp: in_set_enumerate_eq)
  then have "filter (\<lambda>(i, x). int i \<noteq> index) (enumerate 0 xs) = enumerate 0 xs"
    by (simp only: filter_True)
  then show ?thesis
    by (simp add: filter_by_index_def)
qed

text \<open>
  Claim C10. On a cart with at least one item and an index below zero or at or beyond the
  number of items, \<open>removeItem\<close> keeps the items, the session id and \<open>createdAt\<close>
  of the cart that the service holds and sets its \<open>updatedAt\<close> to the current time.
  When the browser accepts the write, the method returns and the cart is stored again,
  nothing else changing. When the browser refuses the write, the exception of
  \<open>setItem\<close> leaves \<open>removeItem\<close>, which has no \<open>try\<close> block: the claim's
  "does not throw" fails there, with the service's cart already rewritten and the
  stored cart left as it was.
\<close>

theorem removeItem_out_of_range:
  assumes "cart st = Some c" and "items c \<noteq> []"
    and "index < 0 \<or> int (length (items c)) \<le> index"
  shows "cart (snd (removeItem stringify now index st)) = Some (c\<lparr>updatedAt := now\<rparr>)
         \<and> items (the (cart (snd (removeItem stringify now index st)))) = items c
         \<and> sessionId (the (cart (snd (removeItem stringify now index st)))) = sessionId c
         \<and> createdAt (the (cart (snd (removeItem stringify now index st)))) = createdAt c
         \<and> updatedAt (the (cart (snd (removeItem stringify now index st)))) = now
         \<and> (accepts st (sessionStorage st) STORAGE_KEY (stringify (c\<lparr>updatedAt := now\<rparr>)) \<longrightarrow>
              removeItem stringify now index st =
                (Returned,
                 st\<lparr>cart := Some (c\<lparr>updatedAt := now\<rparr>),
                     sessionStorage :=
                       (sessionStorage st)
                         (STORAGE_KEY \<mapsto> stringify (c\<lparr>updatedAt := now\<rparr>))\<rparr>))
         \<and> (\<not> accepts st (sessionStorage st) STORAGE_KEY (stringify (c\<lparr>updatedAt := now\<rparr>)) \<longrightarrow>
              removeItem stringify now index st
                = (Threw, st\<lparr>cart := Some (c\<lparr>updatedAt := now\<rparr>)\<rparr>))"
proof -
  have same: "filter_by_index (\<lambda>i. i \<noteq> index) (items c) = items c"
    using assms(3) by (rule filter_by_index_out_of_range)
  have eq: "removeItem stringify now index st =
      (if accepts st (sessionStorage st) STORAGE_KEY (stringify (c\<lparr>updatedAt := now\<rparr>))
       then (Returned,
             st\<lparr>cart := Some (c\<lparr>updatedAt := now\<rparr>),
                 sessionStorage :=
                   (sessionStorage st)(STORAGE_KEY \<mapsto> stringify (c\<lparr>updatedAt := now\<rparr>))\<rparr>)
       else (Threw, st\<lparr>cart := Some (c\<lparr>updatedAt := now\<rparr>)\<rparr>))"
    using assms(1,2) by (simp add: removeItem_def same saveCart_def setItem_def)
  show ?thesis unfolding eq by simp
qed

theorem removeItem_out_of_range_witness:
  "cart (example_full [example_item ''Bs.'' ''CT-1'', example_item ''Bs.'' ''CT-2''])
     = Some (example_cart [example_item ''Bs.'' ''CT-1'', example_item ''Bs.'' ''CT-2''])
   \<and> items (example_cart [example_item ''Bs.'' ''CT-1'', example_item ''Bs.'' ''CT-2'']) \<noteq> []
   \<and> ((7::int) < 0
       \<or> int (length (items (example_cart [example_item ''Bs.'' ''CT-1'',
                                            example_item ''Bs.'' ''CT-2'']))) \<le> 7)
   \<and> fst (removeItem example_stringify 1700000001000 7
            (example_full [example_item ''Bs.'' ''CT-1'', example_item ''Bs.'' ''CT-2'']))
       = Threw
   \<and> items (the (cart (snd (removeItem example_stringify 1700000001000 7
                               (example_full [example_item ''Bs.'' ''CT-1'',
                                              example_item ''Bs.'' ''CT-2''])))))
       = [example_item ''Bs.'' ''CT-1'', example_item ''Bs.'' ''CT-2'']
   \<and> updatedAt (the (cart (snd (removeItem example_stringify 1700000001000 7
                                   (example_full [example_item ''Bs.'' ''CT-1'',
                                                  example_item ''Bs.'' ''CT-2'']))))) 
       = 1700000001000
   \<and> fst (removeItem example_stringify 1700000001000 7
            (example_app [example_item ''Bs.'' ''CT-1'', example_item ''Bs.'' ''CT-2'']))
       = Returned
   \<and> fst (addItem example_stringify 1700000001000 ''r4nd0mxyz'' (example_item ''Bs.'' ''CT-3'')
            (example_full [example_item ''Bs.'' ''CT-1'', example_item ''Bs.'' ''CT-2'']))
       = False"
proof -
  let ?its = "[example_item ''Bs.'' ''CT-1'', example_item ''Bs.'' ''CT-2'']"
  have c: "cart (example_full ?its) = Some (example_cart ?its)"
    by (simp add: example_full_def example_app_def)
  have c': "cart (example_app ?its) = Some (example_cart ?its)"
    by (simp add: example_app_def)
  have i: "items (example_cart ?its) = ?its"
    by (simp add: example_cart_def)
  have ne: "items (example_cart ?its) \<noteq> []"
    by (simp add: i)
  have r: "(7::int) < 0 \<or> int (length (items (example_cart ?its))) \<le> 7"
    by (simp add: i)
  have full: "\<not> accepts (example_full ?its) store key v" for store key v
    by (simp add: example_full_def)
  have add: "fst (addItem example_stringify 1700000001000 ''r4nd0mxyz''
                    (example_item ''Bs.'' ''CT-3'') (example_full ?its)) = False"
    by (simp add: addItem_def getOrCreateSessionId_def example_full_def example_app_def
          keys_differ truthy_def saveCart_def setItem_def Let_def)
  from removeItem_out_of_range [OF c ne r, of example_stringify 1700000001000]
    removeItem_out_of_range [OF c' ne r, of example_stringify 1700000001000]
    c ne r i full add example_app_accepts
  show ?thesis by simp
qed

subsection \<open>C8: the search transition\<close>

lemma no_contracts_iff:
  "no_contracts response = (envelope_data response = None \<or> envelope_data response = Some [])"
  by (auto simp: no_contracts_def envelope_data_def split: option.splits)

lemma cob_currentStep_handleApiError:
  "cob_currentStep (cob_handleApiError err msg w) = cob_currentStep w"
  by (simp add: cob_handleApiError_def cob_addError_def Let_def split: prod.splits)

lemma the_data_envelope:
  "envelope_data response = Some cs \<Longrightarrow> the (data (the response)) = cs"
  by (auto simp: envelope_data_def split: option.splits if_splits)

lemma switchMap_none:
  "no_contracts response \<Longrightarrow>
   consultContracts_switchMap response w = (cob_addError ''No se encontraron contratos'' w, None)"
  by (simp add: consultContracts_switchMap_def)

lemma switchMap_one:
  "envelope_data response = Some [c] \<Longrightarrow>
   consultContracts_switchMap response w
     = (w\<lparr>contracts := [c], selectedContract := Some c\<rparr>, Some c)"
  by (simp add: consultContracts_switchMap_def no_contracts_iff the_data_envelope Let_def)

lemma switchMap_many:
  "envelope_data response = Some cs \<Longrightarrow> 1 < length cs \<Longrightarrow>
   consultContracts_switchMap response w
     = (w\<lparr>contracts := cs, cob_currentStep := 2\<rparr>, None)"
  by (auto simp: consultContracts_switchMap_def no_contracts_iff the_data_envelope Let_def)

lemma cob_currentStep_tap: "cob_currentStep (consultDebts_tap c debts w) = 3"
  by (simp add: consultDebts_tap_def split: option.splits)

lemma selectedContract_tap:
  "selectedContract (consultDebts_tap c debts w) = selectedContract w"
  by (simp add: consultDebts_tap_def split: option.splits)

lemma selectedContract_handleApiError:
  "selectedContract (cob_handleApiError err msg w) = selectedContract w"
  by (simp add: cob_handleApiError_def cob_addError_def Let_def split: prod.splits)

text \<open>
  Claim C8, as amended. With the wizard idle on step 1 and a non-blank search code, the
  contracts query is issued, and on its response the transition splits three ways on the
  number of contracts. None (or an unsuccessful response): every state of the run is on
  step 1 and the run ends with the single error \<open>No se encontraron contratos\<close>.
  Exactly one: it is selected, the debts query is issued for it and no state of the run
  is on step 2; when the debts query answers, successfully or not, the wizard ends on
  step 3, and when it fails in transport the wizard ends on step 1. More than one: the
  run ends on step 2 and no debts query is made.
\<close>

theorem consultContracts_three_way_amended:
  assumes idle: "\<not> cob_loading w"
    and code: "searchForm_codigoDeuda w = Some debtCode" "trim debtCode \<noteq> []"
    and step1: "cob_currentStep w = 1"
    and answer: "consultCollectionContracts api
                   \<lparr>codigoEncriptado = '''', rq_medioPago = ''Q'', rq_codigoDeuda = debtCode\<rparr>
                   (cob_aliasServicio w) = Next response"
  shows "(no_contracts response \<longrightarrow>
            fst (consultContracts api w)
              = [CallContracts \<lparr>codigoEncriptado = '''', rq_medioPago = ''Q'',
                                 rq_codigoDeuda = debtCode\<rparr> (cob_aliasServicio w)]
          \<and> (\<forall>s \<in> set (snd (consultContracts api w)). cob_currentStep s = 1)
          \<and> cob_currentStep (last (snd (consultContracts api w))) = 1
          \<and> cob_errors (last (snd (consultContracts api w))) = [''No se encontraron contratos''])
       \<and> (\<forall>c. envelope_data response = Some [c] \<longrightarrow>
            fst (consultContracts api w)
              = [CallContracts \<lparr>codigoEncriptado = '''', rq_medioPago = ''Q'',
                                 rq_codigoDeuda = debtCode\<rparr> (cob_aliasServicio w),
                 CallDebts (consultDebts_request c) (cob_aliasServicio w)]
          \<and> selectedContract (last (snd (consultContracts api w))) = Some c
          \<and> (\<forall>s \<in> set (snd (consultContracts api w)). cob_currentStep s \<noteq> 2)
          \<and> (\<forall>debts. consultCollectionDebts api (consultDebts_request c) (cob_aliasServicio w)
                         = Next debts \<longrightarrow>
                cob_currentStep (last (snd (consultContracts api w))) = 3)
          \<and> (\<forall>err. consultCollectionDebts api (consultDebts_request c) (cob_aliasServicio w)
                         = Error err \<longrightarrow>
                cob_currentStep (last (snd (consultContracts api w))) = 1))
       \<and> (\<forall>cs. envelope_data response = Some cs \<and> 1 < length cs \<longrightarrow>
            fst (consultContracts api w)
              = [CallContracts \<lparr>codigoEncriptado = '''', rq_medioPago = ''Q'',
                                 rq_codigoDeuda = debtCode\<rparr> (cob_aliasServicio w)]
          \<and> cob_currentStep (last (snd (consultContracts api w))) = 2)"
proof (intro conjI allI impI ballI)
  assume none: "no_contracts response"
  have run: "consultContracts api w =
      ([CallContracts \<lparr>codigoEncriptado = '''', rq_medioPago = ''Q'',
                        rq_codigoDeuda = debtCode\<rparr> (cob_aliasServicio w)],
       [cob_clearErrors (w\<lparr>cob_loading := True\<rparr>),
        cob_addError ''No se encontraron contratos'' (cob_clearErrors (w\<lparr>cob_loading := True\<rparr>)),
        cob_finalize (cob_addError ''No se encontraron contratos''
                        (cob_clearErrors (w\<lparr>cob_loading := True\<rparr>)))])"
    using idle code answer
    by (simp add: consultContracts_def Let_def switchMap_none [OF none])
  show "fst (consultContracts api w)
              = [CallContracts \<lparr>codigoEncriptado = '''', rq_medioPago = ''Q'',
                                 rq_codigoDeuda = debtCode\<rparr> (cob_aliasServicio w)]"
    by (simp add: run)
  show "cob_errors (last (snd (consultContracts api w))) = [''No se encontraron contratos'']"
    by (simp add: run cob_finalize_def cob_addError_def cob_clearErrors_def)
  show "cob_currentStep (last (snd (consultContracts api w))) = 1"
    using step1 by (simp add: run cob_finalize_def cob_addError_def cob_clearErrors_def)
  fix s assume "s \<in> set (snd (consultContracts api w))"
  then show "cob_currentStep s = 1"
    using step1 by (auto simp: run cob_finalize_def cob_addError_def cob_clearErrors_def)
next
  fix c assume one: "envelope_data response = Some [c]"
  let ?w1 = "cob_clearErrors (w\<lparr>cob_loading := True\<rparr>)"
  let ?w2 = "?w1\<lparr>contracts := [c], selectedContract := Some c\<rparr>"
  let ?call1 = "CallContracts \<lparr>codigoEncriptado = '''', rq_medioPago = ''Q'',
                                 rq_codigoDeuda = debtCode\<rparr> (cob_aliasServicio w)"
  let ?call2 = "CallDebts (consultDebts_request c) (cob_aliasServicio w)"
  have run: "consultContracts api w =
      (case consultCollectionDebts api (consultDebts_request c) (cob_aliasServicio w) of
         Next debts \<Rightarrow>
           ([?call1, ?call2],
            [?w1, ?w2, consultDebts_tap c debts ?w2,
             cob_finalize (consultDebts_tap c debts ?w2)])
       | Error err \<Rightarrow>
           ([?call1, ?call2],
            [?w1, ?w2, cob_handleApiError err ''Error al consultar contratos'' ?w2,
             cob_finalize (cob_handleApiError err ''Error al consultar contratos'' ?w2)]))"
    using idle code answer
    by (simp add: consultContracts_def Let_def switchMap_one [OF one] split: outcome.splits)
  show "fst (consultContracts api w) = [?call1, ?call2]"
    by (simp add: run split: outcome.splits)
  show "selectedContract (last (snd (consultContracts api w))) = Some c"
    by (simp add: run cob_finalize_def selectedContract_tap selectedContract_handleApiError
          split: outcome.splits)
  {
    fix s assume "s \<in> set (snd (consultContracts api w))"
    then show "cob_currentStep s \<noteq> 2"
      using step1
      by (auto simp: run cob_finalize_def cob_clearErrors_def cob_currentStep_tap
            cob_currentStep_handleApiError split: outcome.splits)
  }
  {
    fix debts
    assume "consultCollectionDebts api (consultDebts_request c) (cob_aliasServicio w)
              = Next debts"
    then show "cob_currentStep (last (snd (consultContracts api w))) = 3"
      by (simp add: run cob_finalize_def cob_currentStep_tap)
  }
  fix err
  assume "consultCollectionDebts api (consultDebts_request c) (cob_aliasServicio w) = Error err"
  then show "cob_currentStep (last (snd (consultContracts api w))) = 1"
    using step1
    by (simp add: run cob_finalize_def cob_currentStep_handleApiError cob_clearErrors_def)
next
  fix cs assume many: "envelope_data response = Some cs \<and> 1 < length cs"
  let ?w1 = "cob_clearErrors (w\<lparr>cob_loading := True\<rparr>)"
  have run: "consultContracts api w =
      ([CallContracts \<lparr>codigoEncriptado = '''', rq_medioPago = ''Q'',
                        rq_codigoDeuda = debtCode\<rparr> (cob_aliasServicio w)],
       [?w1, ?w1\<lparr>contracts := cs, cob_currentStep := 2\<rparr>,
        cob_finalize (?w1\<lparr>contracts := cs, cob_currentStep := 2\<rparr>)])"
    using idle code answer many
    by (simp add: consultContracts_def Let_def switchMap_many)
  show "fst (consultContracts api w)
              = [CallContracts \<lparr>codigoEncriptado = '''', rq_medioPago = ''Q'',
                                 rq_codigoDeuda = debtCode\<rparr> (cob_aliasServicio w)]"
    by (simp add: run)
  show "cob_currentStep (last (snd (consultContracts api w))) = 2"
    by (simp add: run cob_finalize_def)
qed


text \<open>
  Claim C8 as stated fails: the search returns exactly one contract, the debts query for
  it fails in transport, and the wizard ends on step 1, not on step 3.
\<close>

theorem consultContracts_three_way_counterexample:
  "\<not> cob_loading (example_search ''12345'')
   \<and> cob_currentStep (example_search ''12345'') = 1
   \<and> consultCollectionContracts example_api_debts_down
        \<lparr>codigoEncriptado = [], rq_medioPago = ''Q'', rq_codigoDeuda = ''12345''\<rparr> ''coopappi''
       = Next (Some \<lparr>success = True, data = Some [example_contrato ''CT-1'']\<rparr>)
   \<and> fst (consultContracts example_api_debts_down (example_search ''12345''))
       = [CallContracts
            \<lparr>codigoEncriptado = [], rq_medioPago = ''Q'', rq_codigoDeuda = ''12345''\<rparr>
            ''coopappi'',
          CallDebts (consultDebts_request (example_contrato ''CT-1'')) ''coopappi'']
   \<and> map cob_currentStep
         (snd (consultContracts example_api_debts_down (example_search ''12345'')))
       = [1, 1, 1, 1]
   \<and> cob_errors (last (snd (consultContracts example_api_debts_down
                                 (example_search ''12345''))))
       = [''Error al consultar contratos'']"
proof -
  have t: "trim ''12345'' \<noteq> []"
    by (simp add: trim_def strip.simps leading_space_def white_space_def)
  have api: "consultCollectionContracts example_api_debts_down
        \<lparr>codigoEncriptado = [], rq_medioPago = ''Q'', rq_codigoDeuda = ''12345''\<rparr> ''coopappi''
       = Next (Some \<lparr>success = True, data = Some [example_contrato ''CT-1'']\<rparr>)"
    "consultCollectionDebts example_api_debts_down req srv = Error (HttpErrorResponse None)"
    for req srv
    by (simp_all add: example_api_debts_down_def example_api_def)
  have one: "consultContracts_switchMap
               (Some \<lparr>success = True, data = Some [example_contrato ''CT-1'']\<rparr>) v
             = (v\<lparr>contracts := [example_contrato ''CT-1''],
                  selectedContract := Some (example_contrato ''CT-1'')\<rparr>,
                Some (example_contrato ''CT-1''))" for v
    by (rule switchMap_one) (simp add: envelope_data_def)
  have run: "consultContracts example_api_debts_down (example_search ''12345'') =
     ([CallContracts
            \<lparr>codigoEncriptado = [], rq_medioPago = ''Q'', rq_codigoDeuda = ''12345''\<rparr>
            ''coopappi'',
       CallDebts (consultDebts_request (example_contrato ''CT-1'')) ''coopappi''],
      [cob_clearErrors ((example_search ''12345'')\<lparr>cob_loading := True\<rparr>),
       (cob_clearErrors ((example_search ''12345'')\<lparr>cob_loading := True\<rparr>))
         \<lparr>contracts := [example_contrato ''CT-1''],
           selectedContract := Some (example_contrato ''CT-1'')\<rparr>,
       cob_handleApiError (HttpErrorResponse None) ''Error al consultar contratos''
         ((cob_clearErrors ((example_search ''12345'')\<lparr>cob_loading := True\<rparr>))
            \<lparr>contracts := [example_contrato ''CT-1''],
              selectedContract := Some (example_contrato ''CT-1'')\<rparr>),
       cob_finalize
         (cob_handleApiError (HttpErrorResponse None) ''Error al consultar contratos''
            ((cob_clearErrors ((example_search ''12345'')\<lparr>cob_loading := True\<rparr>))
               \<lparr>contracts := [example_contrato ''CT-1''],
                 selectedContract := Some (example_contrato ''CT-1'')\<rparr>))])"
    using t
    by (simp add: consultContracts_def Let_def example_search_def api one cob_clearErrors_def)
  have errs: "cob_errors (cob_handleApiError (HttpErrorResponse None) msg v) = cob_errors v @ [msg]"
    for msg v
    by (simp add: cob_handleApiError_def handleHttpError_def extractApiError_def isApiError_def
          cob_addError_def Let_def)
  show ?thesis
    unfolding run
    by (simp add: api cob_finalize_def cob_currentStep_handleApiError errs cob_clearErrors_def)
       (simp add: example_search_def)
qed

theorem consultContracts_three_way_witness:
  "\<not> cob_loading (example_search ''12345'')
   \<and> trim ''12345'' \<noteq> [] \<and> trim ''777'' \<noteq> [] \<and> trim ''99999'' \<noteq> []
   \<and> cob_currentStep (example_search ''12345'') = 1
   \<and> no_contracts (Some \<lparr>success = True, data = Some ([] :: Contrato list)\<rparr>)
   \<and> map cob_currentStep (snd (consultContracts example_api (example_search ''12345'')))
       = [1, 1, 3, 3]
   \<and> selectedContract (last (snd (consultContracts example_api (example_search ''12345''))))
       = Some (example_contrato ''CT-1'')
   \<and> cob_currentStep (last (snd (consultContracts example_api (example_search ''777'')))) = 2
   \<and> cob_currentStep (last (snd (consultContracts example_api (example_search ''99999'')))) = 1
   \<and> cob_errors (last (snd (consultContracts example_api (example_search ''99999''))))
       = [''No se encontraron contratos'']
   \<and> cob_currentStep (last (snd (consultContracts example_api_debts_down
                                      (example_search ''12345'')))) = 1"
proof -
  have t1: "trim ''12345'' \<noteq> []" and t2: "trim ''777'' \<noteq> []" and t3: "trim ''99999'' \<noteq> []"
    by (simp_all add: trim_def strip.simps leading_space_def white_space_def)
  have idle: "\<not> cob_loading (example_search code)" for code
    by (simp add: example_search_def)
  have code: "searchForm_codigoDeuda (example_search code) = Some code" for code
    by (simp add: example_search_def)
  have step: "cob_currentStep (example_search code) = 1" for code
    by (simp add: example_search_def)
  have a1: "consultCollectionContracts example_api
              \<lparr>codigoEncriptado = [], rq_medioPago = ''Q'', rq_codigoDeuda = ''12345''\<rparr>
              (cob_aliasServicio (example_search ''12345''))
            = Next (Some \<lparr>success = True, data = Some [example_contrato ''CT-1'']\<rparr>)"
    by (simp add: example_api_def)
  have a2: "consultCollectionContracts example_api
              \<lparr>codigoEncriptado = [], rq_medioPago = ''Q'', rq_codigoDeuda = ''777''\<rparr>
              (cob_aliasServicio (example_search ''777''))
            = Next (Some \<lparr>success = True,
                          data = Some [example_contrato ''CT-1'', example_contrato ''CT-2'']\<rparr>)"
    by (simp add: example_api_def)
  have a3: "consultCollectionContracts example_api
              \<lparr>codigoEncriptado = [], rq_medioPago = ''Q'', rq_codigoDeuda = ''99999''\<rparr>
              (cob_aliasServicio (example_search ''99999''))
            = Next (Some \<lparr>success = True, data = Some []\<rparr>)"
    by (simp add: example_api_def)
  have d: "consultCollectionDebts example_api (consultDebts_request (example_contrato ''CT-1''))
             (cob_aliasServicio (example_search ''12345''))
           = Next (Some \<lparr>success = True, data = Some [example_pago 1, example_pago 2]\<rparr>)"
    by (simp add: example_api_def)
  have e1: "envelope_data (Some \<lparr>success = True, data = Some [example_contrato ''CT-1'']\<rparr>)
              = Some [example_contrato ''CT-1'']"
    by (simp add: envelope_data_def)
  have e2: "envelope_data (Some \<lparr>success = True,
                data = Some [example_contrato ''CT-1'', example_contrato ''CT-2'']\<rparr>)
              = Some [example_contrato ''CT-1'', example_contrato ''CT-2'']
            \<and> 1 < length [example_contrato ''CT-1'', example_contrato ''CT-2'']"
    by (simp add: envelope_data_def)
  have e3: "no_contracts (Some \<lparr>success = True, data = Some ([] :: Contrato list)\<rparr>)"
    by (simp add: no_contracts_def)
  from consultContracts_three_way_amended [OF idle code t1 step a1] e1 d
  have one: "selectedContract (last (snd (consultContracts example_api (example_search ''12345''))))
               = Some (example_contrato ''CT-1'')"
      "cob_currentStep (last (snd (consultContracts example_api (example_search ''12345'')))) = 3"
    by blast+
  have trace: "map cob_currentStep (snd (consultContracts example_api (example_search ''12345'')))
       = [1, 1, 3, 3]"
    using t1
    by (simp add: consultContracts_def Let_def idle code a1 d consultContracts_switchMap_def
          no_contracts_def cob_finalize_def cob_clearErrors_def consultDebts_tap_def
          envelope_data_def step)
  from consultContracts_three_way_amended [OF idle code t2 step a2] e2
  have many: "cob_currentStep (last (snd (consultContracts example_api (example_search ''777''))))
                = 2"
    by blast
  from consultContracts_three_way_amended [OF idle code t3 step a3] e3
  have none: "cob_currentStep (last (snd (consultContracts example_api (example_search ''99999''))))
                = 1"
      "cob_errors (last (snd (consultContracts example_api (example_search ''99999''))))
                = [''No se encontraron contratos'']"
    by auto
  have a4: "consultCollectionContracts example_api_debts_down
              \<lparr>codigoEncriptado = [], rq_medioPago = ''Q'', rq_codigoDeuda = ''12345''\<rparr>
              (cob_aliasServicio (example_search ''12345''))
            = Next (Some \<lparr>success = True, data = Some [example_contrato ''CT-1'']\<rparr>)"
    and d4: "consultCollectionDebts example_api_debts_down
               (consultDebts_request (example_contrato ''CT-1''))
               (cob_aliasServicio (example_search ''12345''))
             = Error (HttpErrorResponse None)"
    by (simp_all add: example_api_debts_down_def example_api_def)
  from consultContracts_three_way_amended [OF idle code t1 step a4] e1 d4
  have down: "cob_currentStep (last (snd (consultContracts example_api_debts_down
                                            (example_search ''12345'')))) = 1"
    by blast
  from idle t1 t2 t3 step e3 one trace many none down show ?thesis by blast
qed

text \<open>
  A search code that is blank, that is empty or made of white space only (U+00A0 and
  the other characters outside ASCII included), makes no call: the run is the single
  state with the message asking for the code.
\<close>

lemma consultContracts_blank:
  assumes "\<not> cob_loading w" and "searchForm_codigoDeuda w = Some debtCode"
    and "trim debtCode = []"
  shows "consultContracts api w = ([], [cob_addError msg_ingrese_codigo w])"
  using assms by (simp add: consultContracts_def)

lemma consultContracts_blank_nbsp:
  "consultContracts example_api (example_search [CHR 0xC2, CHR 0xA0])
     = ([], [cob_addError msg_ingrese_codigo (example_search [CHR 0xC2, CHR 0xA0])])"
  "consultContracts example_api (example_search blank_text)
     = ([], [cob_addError msg_ingrese_codigo (example_search blank_text)])"
proof -
  have "trim [CHR 0xC2, CHR 0xA0] = []"
    by (simp add: trim_def strip.simps leading_space_def white_space_def)
  then show "consultContracts example_api (example_search [CHR 0xC2, CHR 0xA0])
     = ([], [cob_addError msg_ingrese_codigo (example_search [CHR 0xC2, CHR 0xA0])])"
    by (intro consultContracts_blank) (simp_all add: example_search_def)
  show "consultContracts example_api (example_search blank_text)
     = ([], [cob_addError msg_ingrese_codigo (example_search blank_text)])"
    by (rule consultContracts_blank [where debtCode = blank_text])
       (simp_all add: example_search_def trim_blank_text)
qed

subsection \<open>C9: the confirmation modal\<close>

lemma promises_confirm:
  "promises (snd (confirm c s)) = promises s @ [None]"
  "resolveCallback (snd (confirm c s)) = Some (length (promises s))"
  "fst (confirm c s) = length (promises s)"
  "cm_config (snd (confirm c s)) = merge_config c"
  "cm_isVisible (snd (confirm c s))"
  by (simp_all add: confirm_def Let_def cm_show_def)

lemma orphan_step:
  assumes "p < length (promises s)" and "promises s ! p = None" and "resolveCallback s \<noteq> Some p"
  shows "p < length (promises (modal_step op s))
       \<and> promises (modal_step op s) ! p = None
       \<and> resolveCallback (modal_step op s) \<noteq> Some p"
proof (cases op)
  case (CallConfirm c)
  with assms show ?thesis by (simp add: promises_confirm nth_append)
next
  case ClickConfirm
  with assms show ?thesis
    by (auto simp: handleConfirm_def Let_def cm_hide_def resolve_promise_def nth_list_update
          split: option.splits)
next
  case ClickCancel
  with assms show ?thesis
    by (auto simp: handleCancel_def Let_def cm_hide_def resolve_promise_def nth_list_update
          split: option.splits)
qed

lemma orphan_run:
  "p < length (promises s) \<Longrightarrow> promises s ! p = None \<Longrightarrow> resolveCallback s \<noteq> Some p \<Longrightarrow>
   promises (modal_run ops s) ! p = None"
proof (induction ops arbitrary: s)
  case Nil
  then show ?case by simp
next
  case (Cons op ops)
  from orphan_step [OF Cons.prems, of op] Cons.IH [of "modal_step op s"]
  show ?case by simp
qed

lemma handle_resolves:
  assumes "resolveCallback s = Some p" and "p < length (promises s)" and "promises s ! p = None"
  shows "promises (handleConfirm s) ! p = Some True"
    and "promises (handleCancel s) ! p = Some False"
  using assms
  by (simp_all add: handleConfirm_def handleCancel_def Let_def cm_hide_def resolve_promise_def)

text \<open>
  Claim C9, as amended. The service holds at most one resolver (the signal is one
  optional value). \<open>confirm\<close> returns a pending promise and holds its resolver; the
  confirm button resolves that promise with \<open>true\<close>, the cancel button with
  \<open>false\<close>. A second \<open>confirm\<close> before the first is resolved replaces the displayed
  configuration and the held resolver: the buttons then resolve the second promise, and
  the first promise stays pending after a click on either button and after every later
  sequence of calls and clicks. It is never resolved.
\<close>

theorem confirmation_modal_single_slot_amended:
  assumes first: "confirm c1 s = (p1, s1)" and second: "confirm c2 s1 = (p2, s2)"
  shows "resolveCallback s1 = Some p1
       \<and> promises s1 ! p1 = None
       \<and> promises (handleConfirm s1) ! p1 = Some True
       \<and> promises (handleCancel s1) ! p1 = Some False
       \<and> cm_config s2 = merge_config c2 \<and> cm_isVisible s2
       \<and> resolveCallback s2 = Some p2 \<and> p2 \<noteq> p1
       \<and> promises (handleConfirm s2) ! p2 = Some True
       \<and> promises (handleCancel s2) ! p2 = Some False
       \<and> promises (handleConfirm s2) ! p1 = None
       \<and> promises (handleCancel s2) ! p1 = None
       \<and> (\<forall>ops. promises (modal_run ops s2) ! p1 = None)"
proof -
  from first have p1: "p1 = length (promises s)" and s1: "s1 = snd (confirm c1 s)"
    using promises_confirm(3) [of c1 s] by simp_all
  from second have p2: "p2 = length (promises s1)" and s2: "s2 = snd (confirm c2 s1)"
    using promises_confirm(3) [of c2 s1] by simp_all
  have ps1: "promises s1 = promises s @ [None]" and cb1: "resolveCallback s1 = Some p1"
    by (simp_all add: s1 p1 promises_confirm)
  have ps2: "promises s2 = promises s @ [None, None]" and cb2: "resolveCallback s2 = Some p2"
    by (simp_all add: s2 p2 promises_confirm ps1)
  have pend1: "p1 < length (promises s1)" "promises s1 ! p1 = None"
    by (simp_all add: ps1 p1)
  have p2_val: "p2 = Suc p1" by (simp add: p2 ps1 p1)
  have pend2: "p2 < length (promises s2)" "promises s2 ! p2 = None"
    by (simp_all add: ps2 p2_val p1 nth_append)
  have orphan: "p1 < length (promises s2)" "promises s2 ! p1 = None"
      "resolveCallback s2 \<noteq> Some p1"
    by (simp_all add: ps2 p1 nth_append cb2 p2_val)
  have run: "promises (modal_run ops s2) ! p1 = None" for ops
    using orphan by (rule orphan_run)
  have c: "promises (handleConfirm s2) ! p1 = None"
    using run [of "[ClickConfirm]"] by simp
  have d: "promises (handleCancel s2) ! p1 = None"
    using run [of "[ClickCancel]"] by simp
  show ?thesis
    using cb1 pend1 handle_resolves [OF cb1 pend1] cb2 p2_val
      handle_resolves [OF cb2 pend2] c d run
    by (simp add: s2 promises_confirm)
qed

text \<open>
  Claim C9 as stated fails: after two calls of \<open>confirm\<close>, a click on the confirm button
  resolves the second promise only; the first one is still pending after that click and
  after a further click.
\<close>

theorem confirmation_modal_orphan_counterexample:
  "fst (confirm (Some (example_input ''first'')) modal_initial) = 0
   \<and> fst (confirm (Some (example_input ''second''))
            (snd (confirm (Some (example_input ''first'')) modal_initial))) = 1
   \<and> promises (handleConfirm
        (snd (confirm (Some (example_input ''second''))
               (snd (confirm (Some (example_input ''first'')) modal_initial)))))
       = [None, Some True]
   \<and> promises (handleCancel (handleConfirm
        (snd (confirm (Some (example_input ''second''))
               (snd (confirm (Some (example_input ''first'')) modal_initial))))))
       = [None, Some True]"
  by (simp add: confirm_def Let_def cm_show_def handleConfirm_def handleCancel_def cm_hide_def
        resolve_promise_def modal_initial_def)

theorem confirmation_modal_single_slot_amended_witness:
  "confirm (Some (example_input ''first'')) modal_initial
     = (0, snd (confirm (Some (example_input ''first'')) modal_initial))
   \<and> confirm (Some (example_input ''second''))
        (snd (confirm (Some (example_input ''first'')) modal_initial))
     = (1, snd (confirm (Some (example_input ''second''))
                  (snd (confirm (Some (example_input ''first'')) modal_initial))))
   \<and> title (cm_config (snd (confirm (Some (example_input ''second''))
                  (snd (confirm (Some (example_input ''first'')) modal_initial))))) = ''second''
   \<and> promises (modal_run [ClickCancel, CallConfirm None, ClickConfirm]
        (snd (confirm (Some (example_input ''second''))
               (snd (confirm (Some (example_input ''first'')) modal_initial))))) ! 0 = None
   \<and> promises (handleCancel
        (snd (confirm (Some (example_input ''second''))
               (snd (confirm (Some (example_input ''first'')) modal_initial))))) ! 1
       = Some False"
proof -
  let ?s1 = "snd (confirm (Some (example_input ''first'')) modal_initial)"
  let ?s2 = "snd (confirm (Some (example_input ''second'')) ?s1)"
  have a: "confirm (Some (example_input ''first'')) modal_initial = (0, ?s1)"
    by (simp add: confirm_def Let_def modal_initial_def)
  have b: "confirm (Some (example_input ''second'')) ?s1 = (1, ?s2)"
    by (simp add: confirm_def Let_def modal_initial_def cm_show_def)
  have t: "title (merge_config (Some (example_input ''second''))) = ''second''"
    by (simp add: merge_config_def example_input_def or_default_def)
  note inst = confirmation_modal_single_slot_amended [OF a b]
  from inst have cfg: "cm_config ?s2 = merge_config (Some (example_input ''second''))"
    by blast
  from inst have run: "\<forall>ops. promises (modal_run ops ?s2) ! 0 = None"
    by blast
  from inst have cancel: "promises (handleCancel ?s2) ! 1 = Some False"
    by blast
  from a b t cfg cancel run [rule_format, of "[ClickCancel, CallConfirm None, ClickConfirm]"]
  show ?thesis by simp
qed

subsection \<open>Checkout wizard: C2, C5 and C6\<close>

lemma currentStep_handleApiError [simp]:
  "currentStep (handleApiError err msg w) = currentStep w"
  "qrData (handleApiError err msg w) = qrData w"
  "app (handleApiError err msg w) = app w"
  "form (handleApiError err msg w) = form w"
  "itemsCart (handleApiError err msg w) = itemsCart w"
  by (simp_all add: handleApiError_def addError_def Let_def split: prod.splits)

lemma surfaced_handleApiError:
  "errors (handleApiError err msg w) = errors w @ [msg]
   \<or> (em_isVisible (errorModal (handleApiError err msg w))
       \<and> extractApiError err \<noteq> None)"
  by (auto simp: handleApiError_def addError_def handleHttpError_def Let_def
        split: prod.splits option.splits)

lemma processPayment_blocked:
  "loading w \<Longrightarrow> processPayment b api w = ([], w)"
  "\<not> loading w \<Longrightarrow> trim (correoElectronico (form w)) = [] \<Longrightarrow>
     processPayment b api w = ([], addError ''Debe ingresar un correo electronico'' w)"
  "\<not> loading w \<Longrightarrow> trim (correoElectronico (form w)) \<noteq> [] \<Longrightarrow> medioPago (form w) \<noteq> ''Q'' \<Longrightarrow>
     processPayment b api w = ([], addError ''Metodo de pago no implementado'' w)"
  by (simp_all add: processPayment_def Let_def)

lemma processPayment_runs:
  assumes "\<not> loading w" and "trim (correoElectronico (form w)) \<noteq> []"
    and "medioPago (form w) = ''Q''"
  shows "processPayment b api w =
      ([FingerprintGenerated (fst (generate b (app w))), GenerateQRcode (payment_request b w)],
       (case api (payment_request b w) of
          Next response \<Rightarrow>
            processPayment_tap response (w\<lparr>loading := True, app := snd (generate b (app w))\<rparr>)
        | Error err \<Rightarrow>
            handleApiError err ''Error al procesar el pago. Intente nuevamente.''
              (w\<lparr>loading := True, app := snd (generate b (app w))\<rparr>))\<lparr>loading := False\<rparr>)"
  using assms
  by (simp add: processPayment_def Let_def payment_request_def case_prod_beta
        cong: outcome.case_cong)









lemma tap_granted:
  "envelope_data response = Some d \<Longrightarrow>
   processPayment_tap response w
     = w\<lparr>qrData := \<lparr>validity = validity d, qrImage = qrImage d\<rparr>,
         app := clearCart (app w), currentStep := 5\<rparr>"
  by (simp add: processPayment_tap_def)

lemma tap_refused:
  "envelope_data response = None \<Longrightarrow>
   processPayment_tap response w = addError ''Error al procesar el pago'' w"
  by (simp add: processPayment_tap_def)

lemma payment_granted_Some:
  assumes "payment_granted b api w = Some d"
  shows "\<not> loading w" "trim (correoElectronico (form w)) \<noteq> []" "medioPago (form w) = ''Q''"
    "\<exists>response. api (payment_request b w) = Next response \<and> envelope_data response = Some d"
  using assms
  by (auto simp: payment_granted_def split: if_splits outcome.splits)

lemma processPayment_granted:
  assumes "payment_granted b api w = Some d"
  shows "snd (processPayment b api w)
     = w\<lparr>loading := False, app := clearCart (snd (generate b (app w))),
         qrData := \<lparr>validity = validity d, qrImage = qrImage d\<rparr>, currentStep := 5\<rparr>"
proof -
  from payment_granted_Some [OF assms] obtain response where
    run: "\<not> loading w" "trim (correoElectronico (form w)) \<noteq> []" "medioPago (form w) = ''Q''"
    and resp: "api (payment_request b w) = Next response" "envelope_data response = Some d"
    by blast
  show ?thesis
    by (simp add: processPayment_runs [OF run] resp tap_granted)
qed

lemma processPayment_failed:
  assumes "\<not> loading w" and "payment_granted b api w = None"
  shows "\<exists>v. snd (processPayment b api w) = v\<lparr>loading := False\<rparr>
           \<and> currentStep v = currentStep w \<and> qrData v = qrData w \<and> itemsCart v = itemsCart w
           \<and> form v = form w
           \<and> (app v = app w \<or> app v = snd (generate b (app w)))
           \<and> ((\<exists>msg. errors v = errors w @ [msg]) \<or> em_isVisible (errorModal v))"
proof (cases "trim (correoElectronico (form w)) = []")
  case True
  with assms(1) show ?thesis
    by (intro exI [of _ "addError ''Debe ingresar un correo electronico'' w"])
       (simp add: processPayment_blocked addError_def)
next
  case mail: False
  show ?thesis
  proof (cases "medioPago (form w) = ''Q''")
    case False
    with assms(1) mail show ?thesis
      by (intro exI [of _ "addError ''Metodo de pago no implementado'' w"])
         (simp add: processPayment_blocked addError_def)
  next
    case True
    let ?w2 = "w\<lparr>loading := True, app := snd (generate b (app w))\<rparr>"
    note run = processPayment_runs [OF assms(1) mail True, of b api]
    show ?thesis
    proof (cases "api (payment_request b w)")
      case (Next response)
      with assms mail True have "envelope_data response = None"
        by (simp add: payment_granted_def)
      with Next show ?thesis
        by (intro exI [of _ "addError ''Error al procesar el pago'' ?w2"])
           (simp add: run tap_refused addError_def)
    next
      case (Error err)
      with surfaced_handleApiError
             [of err "''Error al procesar el pago. Intente nuevamente.''" ?w2]
      show ?thesis
        by (intro exI [of _ "handleApiError err
                               ''Error al procesar el pago. Intente nuevamente.'' ?w2"])
           (auto simp: run)
    qed
  qed
qed



lemma example_payment_ready:
  "\<not> loading (example_checkout step (example_form ''ana@example.org'' doc exc))"
  "trim (correoElectronico (form (example_checkout step (example_form ''ana@example.org'' doc exc))))
     \<noteq> []"
  "medioPago (form (example_checkout step (example_form ''ana@example.org'' doc exc))) = ''Q''"
  by (simp_all add: example_checkout_def example_form_def trim_def strip.simps leading_space_def white_space_def)






lemma currentStep_nextStep:
  "currentStep (nextStep w) = (if currentStep w < 5 then currentStep w + 1 else currentStep w)"
  by (simp add: nextStep_def clearErrors_def totalSteps_def Let_def)

lemma currentStep_prevStep:
  "currentStep (prevStep w)
     = (if currentStep w = 5 \<or> currentStep w \<le> 1 then currentStep w else currentStep w - 1)"
  by (simp add: prevStep_def clearErrors_def Let_def)

lemma currentStep_processPayment:
  "currentStep (snd (processPayment b api w))
     = (if payment_granted b api w \<noteq> None then 5 else currentStep w)"
proof (cases "payment_granted b api w")
  case (Some d)
  then show ?thesis by (simp add: processPayment_granted)
next
  case None
  show ?thesis
  proof (cases "loading w")
    case True
    with None show ?thesis by (simp add: processPayment_blocked)
  next
    case False
    from processPayment_failed [OF False None] None show ?thesis by auto
  qed
qed

lemma validateBillingShipping_result:
  "validateBillingShipping w = (True, w)
   \<or> (\<exists>m. validateBillingShipping w = (False, addError m w))"
  unfolding validateBillingShipping_def Let_def by (simp, blast)

lemma validateCurrentStep_result:
  "validateCurrentStep w = (True, clearErrors w)
   \<or> (\<exists>m. validateCurrentStep w = (False, addError m (clearErrors w)))"
proof -
  consider "currentStep (clearErrors w) = 1" | "currentStep (clearErrors w) = 2"
    | "currentStep (clearErrors w) = 3"
    | "currentStep (clearErrors w) \<noteq> 1" "currentStep (clearErrors w) \<noteq> 2"
      "currentStep (clearErrors w) \<noteq> 3"
    by blast
  then show ?thesis
  proof cases
    case 1
    then show ?thesis unfolding validateCurrentStep_def Let_def by (simp, blast)
  next
    case 2
    then show ?thesis unfolding validateCurrentStep_def Let_def by (simp, blast)
  next
    case 3
    then show ?thesis
      unfolding validateCurrentStep_def Let_def
      using validateBillingShipping_result [of "clearErrors w"] by simp
  next
    case 4
    then show ?thesis unfolding validateCurrentStep_def Let_def by simp
  qed
qed

lemma validateCurrentStep_state:
  "currentStep (snd (validateCurrentStep w)) = currentStep w"
  "form (snd (validateCurrentStep w)) = form w"
  "itemsCart (snd (validateCurrentStep w)) = itemsCart w"
  "qrData (snd (validateCurrentStep w)) = qrData w"
  "app (snd (validateCurrentStep w)) = app w"
  "loading (snd (validateCurrentStep w)) = loading w"
  "fst (validateCurrentStep w) \<Longrightarrow> snd (validateCurrentStep w) = clearErrors w"
  using validateCurrentStep_result [of w]
  by (auto simp: addError_def clearErrors_def)

lemma currentStep_validateNIT:
  "currentStep (fst (validateNIT w)) = currentStep w
   \<or> currentStep (fst (validateNIT w)) = currentStep (nextStep w)"
  by (simp add: validateNIT_def Let_def)

lemma currentStep_handleNextStep:
  "currentStep (fst (handleNextStep w)) = currentStep w
   \<or> currentStep (fst (handleNextStep w)) = currentStep (nextStep w)"
proof (cases "fst (validateCurrentStep w)")
  case False
  then show ?thesis by (simp add: handleNextStep_def case_prod_beta validateCurrentStep_state)
next
  case True
  then have v: "validateCurrentStep w = (True, clearErrors w)"
    using validateCurrentStep_state(7) [of w] by (cases "validateCurrentStep w") simp
  have n: "currentStep (nextStep (clearErrors w)) = currentStep (nextStep w)"
    by (simp add: currentStep_nextStep clearErrors_def)
  have c: "currentStep (clearErrors w) = currentStep w"
    by (simp add: clearErrors_def)
  show ?thesis
    using currentStep_validateNIT [of "clearErrors w"]
    by (auto simp: handleNextStep_def v n c)
qed

lemma currentStep_verifyNIT_next:
  "currentStep (verifyNIT_next response w) = currentStep w
   \<or> currentStep (verifyNIT_next response w) = currentStep (nextStep w)"
  by (simp add: verifyNIT_next_def Let_def currentStep_nextStep addError_def)

lemma currentStep_removeItem_wizard:
  "currentStep (snd (removeItem_wizard stringify now index w)) = currentStep w"
  by (simp add: removeItem_wizard_def split: prod.splits completion.splits)

lemma currentStep_loadCart_wizard: "currentStep (loadCart_wizard w) = currentStep w"
  by (simp add: loadCart_wizard_def Let_def split: list.splits)

text \<open>
  Claim C2, as amended. The step stays within 1 to 5. An event ends on step 5 only if
  the wizard was on step 5 already, or the event is a payment submission that the backend
  grants (a response with success and data), or the wizard was on step 4 and the event
  is one that calls \<open>nextStep\<close>: \<open>handleNextStep\<close>, \<open>handleProcessPaymentClick\<close>
  or an answer of the NIT verification arriving. So from steps 1 to 3 only a granted
  payment reaches step 5. A payment submission ends on step 5 exactly when it is granted
  and leaves the step as it was otherwise. \<open>prevStep\<close> on step 5 leaves the state
  unchanged.
\<close>

theorem step5_only_after_payment_amended:
  assumes "1 \<le> currentStep w" and "currentStep w \<le> 5"
  shows "1 \<le> currentStep (checkout_step ev w) \<and> currentStep (checkout_step ev w) \<le> 5
       \<and> (currentStep (checkout_step ev w) = 5 \<longrightarrow>
            currentStep w = 5
            \<or> (\<exists>b' api'. ev = ProcessPayment b' api' \<and> payment_granted b' api' w \<noteq> None)
            \<or> (currentStep w = 4
                \<and> (ev = HandleNextStep \<or> ev = HandleProcessPaymentClick
                    \<or> (\<exists>response. ev = VerifyNIT_next response))))
       \<and> currentStep (checkout_step (ProcessPayment b api) w)
            = (if payment_granted b api w \<noteq> None then 5 else currentStep w)
       \<and> (currentStep w = 5 \<longrightarrow> checkout_step PrevStep w = w)"
proof -
  have pay: "currentStep (checkout_step (ProcessPayment b api) w)
            = (if payment_granted b api w \<noteq> None then 5 else currentStep w)" for b api
    by (simp add: currentStep_processPayment)
  have stay: "currentStep w = 5 \<longrightarrow> checkout_step PrevStep w = w"
    by (simp add: prevStep_def)
  have main: "1 \<le> currentStep (checkout_step ev w) \<and> currentStep (checkout_step ev w) \<le> 5
       \<and> (currentStep (checkout_step ev w) = 5 \<longrightarrow>
            currentStep w = 5
            \<or> (\<exists>b' api'. ev = ProcessPayment b' api' \<and> payment_granted b' api' w \<noteq> None)
            \<or> (currentStep w = 4
                \<and> (ev = HandleNextStep \<or> ev = HandleProcessPaymentClick
                    \<or> (\<exists>response. ev = VerifyNIT_next response))))"
  proof (cases ev)
    case NgOnInit
    with assms show ?thesis by (simp add: currentStep_loadCart_wizard)
  next
    case (RemoveItem stringify now index)
    with assms show ?thesis by (simp add: currentStep_removeItem_wizard)
  next
    case HandleProcessPaymentClick
    with assms show ?thesis
      by (simp add: handleProcessPaymentClick_def processCardPayments_def currentStep_nextStep)
  next
    case HandleNextStep
    with assms currentStep_handleNextStep [of w] show ?thesis
      by (auto simp: currentStep_nextStep split: if_splits)
  next
    case (VerifyNIT_next response)
    with assms currentStep_verifyNIT_next [of response w] show ?thesis
      by (auto simp: currentStep_nextStep split: if_splits)
  next
    case (VerifyNIT_error err)
    with assms show ?thesis by (simp add: verifyNIT_error_def)
  next
    case PrevStep
    with assms show ?thesis by (auto simp: currentStep_prevStep)
  next
    case (ChangeBillingDataMode unNamed)
    with assms show ?thesis by (simp add: changeBillingDataMode_def)
  next
    case (ProcessPayment b' api')
    with assms show ?thesis by (simp add: currentStep_processPayment)
  next
    case (SetPaymentMethod v)
    with assms show ?thesis by (simp add: setPaymentMethod_def)
  next
    case (SetExceptionNIT v)
    with assms show ?thesis by (simp add: setExceptionNIT_def)
  next
    case (EditForm formValue)
    with assms show ?thesis by simp
  qed
  from main pay stay show ?thesis by blast
qed

text \<open>
  Claim C2 as stated fails: on step 4, \<open>handleNextStep\<close> passes the validation of
  step 4, is not on the NIT branch and calls \<open>nextStep\<close>, which increments the step
  to 5; no request is made, the QR data is still empty and the cart still holds its item.
  \<open>handleProcessPaymentClick\<close> increments the step in the same way.
\<close>

theorem step5_only_after_payment_counterexample:
  "currentStep (example_checkout 4 (example_form ''ana@example.org'' ''99002'' ''false'')) = 4
   \<and> currentStep (fst (handleNextStep
        (example_checkout 4 (example_form ''ana@example.org'' ''99002'' ''false'')))) = 5
   \<and> snd (handleNextStep
        (example_checkout 4 (example_form ''ana@example.org'' ''99002'' ''false''))) = None
   \<and> qrData (fst (handleNextStep
        (example_checkout 4 (example_form ''ana@example.org'' ''99002'' ''false''))))
       = \<lparr>validity = [], qrImage = []\<rparr>
   \<and> cartItems (app (fst (handleNextStep
        (example_checkout 4 (example_form ''ana@example.org'' ''99002'' ''false'')))))
       = [example_item ''Bs.'' ''CT-1'']
   \<and> currentStep (handleProcessPaymentClick
        (example_checkout 4 (example_form ''ana@example.org'' ''99002'' ''false''))) = 5"
  by (simp add: handleNextStep_def validateCurrentStep_def clearErrors_def Let_def nextStep_def
        totalSteps_def handleProcessPaymentClick_def processCardPayments_def)
     (simp add: example_checkout_def example_app_def cartItems_def example_cart_def)

theorem step5_only_after_payment_amended_witness:
  "(1::int) \<le> currentStep (example_checkout 4
                (example_form ''ana@example.org'' ''99002'' ''false''))
   \<and> currentStep (example_checkout 4
                (example_form ''ana@example.org'' ''99002'' ''false'')) \<le> 5
   \<and> payment_granted (example_browser (Some ''screen'')) backend_ok
        (example_checkout 4 (example_form ''ana@example.org'' ''99002'' ''false'')) \<noteq> None
   \<and> currentStep (checkout_step (ProcessPayment (example_browser (Some ''screen'')) backend_ok)
        (example_checkout 4 (example_form ''ana@example.org'' ''99002'' ''false''))) = 5
   \<and> payment_granted (example_browser (Some ''screen'')) backend_down
        (example_checkout 4 (example_form ''ana@example.org'' ''99002'' ''false'')) = None
   \<and> currentStep (checkout_step (ProcessPayment (example_browser (Some ''screen'')) backend_down)
        (example_checkout 4 (example_form ''ana@example.org'' ''99002'' ''false''))) = 4
   \<and> currentStep (checkout_step (HandleNextStep :: string checkout_op)
        (example_checkout 3 (example_form ''ana@example.org'' ''99002'' ''false''))) \<noteq> 5
   \<and> currentStep (example_checkout 5 (example_form ''ana@example.org'' ''99002'' ''false'')) = 5
   \<and> checkout_step (PrevStep :: string checkout_op)
        (example_checkout 5 (example_form ''ana@example.org'' ''99002'' ''false''))
       = example_checkout 5 (example_form ''ana@example.org'' ''99002'' ''false'')
   \<and> payment_granted (example_browser (Some ''screen'')) backend_ok
        (example_checkout 4 (example_form [CHR 0xC2, CHR 0xA0] ''99002'' ''false'')) = None
   \<and> currentStep (checkout_step (ProcessPayment (example_browser (Some ''screen'')) backend_ok)
        (example_checkout 4 (example_form [CHR 0xC2, CHR 0xA0] ''99002'' ''false''))) = 4"
proof -
  let ?n = "example_checkout 4 (example_form [CHR 0xC2, CHR 0xA0] ''99002'' ''false'')"
  have blank: "trim (correoElectronico (form ?n)) = []" "currentStep ?n = 4"
    by (simp_all add: example_checkout_def example_form_def trim_def
          strip.simps leading_space_def white_space_def)
  have ungranted:
    "payment_granted (example_browser (Some ''screen'')) backend_ok ?n = None"
    using blank by (simp add: payment_granted_def)
  have rn: "(1::int) \<le> currentStep ?n" "currentStep ?n \<le> 5"
    by (simp_all add: blank)
  from step5_only_after_payment_amended
         [OF rn, of "PrevStep" "example_browser (Some ''screen'')" backend_ok]
    ungranted blank
  have stopped: "currentStep (checkout_step
        (ProcessPayment (example_browser (Some ''screen'')) backend_ok) ?n) = 4"
    by simp
  let ?w = "example_checkout 4 (example_form ''ana@example.org'' ''99002'' ''false'')"
  let ?w3 = "example_checkout 3 (example_form ''ana@example.org'' ''99002'' ''false'')"
  let ?w5 = "example_checkout 5 (example_form ''ana@example.org'' ''99002'' ''false'')"
  let ?b = "example_browser (Some ''screen'')"
  note ready = example_payment_ready [of 4 "''99002''" "''false''"]
  have ok: "payment_granted ?b backend_ok ?w = Some example_qr"
    using ready by (simp add: payment_granted_def backend_ok_def envelope_data_def)
  have down: "payment_granted ?b backend_down ?w = None"
    using ready by (simp add: payment_granted_def backend_down_def)
  have s3: "currentStep ?w3 = 3" and s4: "currentStep ?w = 4" and s5: "currentStep ?w5 = 5"
    by (simp_all add: example_checkout_def)
  have r3: "(1::int) \<le> currentStep ?w3" "currentStep ?w3 \<le> 5"
    and r4: "(1::int) \<le> currentStep ?w" "currentStep ?w \<le> 5"
    and r5: "(1::int) \<le> currentStep ?w5" "currentStep ?w5 \<le> 5"
    by (simp_all add: s3 s4 s5)
  note granted = step5_only_after_payment_amended [OF r4, of "PrevStep" ?b backend_ok]
  note failed = step5_only_after_payment_amended [OF r4, of "PrevStep" ?b backend_down]
  note forward = step5_only_after_payment_amended
      [OF r3, of "HandleNextStep :: string checkout_op" ?b backend_ok]
  note stay = step5_only_after_payment_amended
      [OF r5, of "PrevStep :: string checkout_op" ?b backend_ok]
  from granted ok have g: "currentStep (checkout_step (ProcessPayment ?b backend_ok) ?w) = 5"
    by simp
  from failed down s4
  have f: "currentStep (checkout_step (ProcessPayment ?b backend_down) ?w) = 4"
    by simp
  from forward s3
  have n: "currentStep (checkout_step (HandleNextStep :: string checkout_op) ?w3) \<noteq> 5"
    by auto
  from stay s5 have p: "checkout_step (PrevStep :: string checkout_op) ?w5 = ?w5"
    by simp
  from r4 ok g down f n s5 p ungranted stopped show ?thesis by simp
qed

lemma hasCommissions_cong:
  "itemsCart v = itemsCart w \<Longrightarrow> hasCommissions v = hasCommissions w"
  by (simp add: hasCommissions_def totalCommissions_def)

lemma validateCurrentStep_cong:
  assumes "currentStep v = currentStep w" and "itemsCart v = itemsCart w"
    and "medioPago (form v) = medioPago (form w)"
    and "correoElectronico (form v) = correoElectronico (form w)"
    and "razonSocial (form v) = razonSocial (form w)"
    and "documentoSIN (form v) = documentoSIN (form w)"
  shows "fst (validateCurrentStep v) = fst (validateCurrentStep w)"
proof -
  have "hasCommissions (clearErrors v) = hasCommissions (clearErrors w)"
    using assms(2) by (intro hasCommissions_cong) (simp add: clearErrors_def)
  with assms show ?thesis
    by (auto simp: validateCurrentStep_def validateBillingShipping_def Let_def clearErrors_def
          hasItems_def split: if_splits)
qed

lemma currentStep_clearErrors: "currentStep (clearErrors w) = currentStep w"
  by (simp add: clearErrors_def)

lemma nextStep_from_3: "currentStep w = 3 \<Longrightarrow> currentStep (nextStep w) = 4"
  by (simp add: nextStep_def clearErrors_def totalSteps_def Let_def)

lemma handleNextStep_invalid:
  "\<not> fst (validateCurrentStep w) \<Longrightarrow> handleNextStep w = (snd (validateCurrentStep w), None)"
  by (simp add: handleNextStep_def case_prod_beta)

lemma handleNextStep_nit:
  assumes "currentStep w = 3" and "hasCommissions w" and "tipoDocumento (form w) = 5"
    and "fst (validateCurrentStep w)"
  shows "handleNextStep w = validateNIT (clearErrors w)"
proof -
  have "hasCommissions (clearErrors w)"
    using assms(2) hasCommissions_cong [of "clearErrors w" w] by (simp add: clearErrors_def)
  with assms show ?thesis
    by (simp add: handleNextStep_def case_prod_beta validateCurrentStep_state)
       (simp add: clearErrors_def)
qed

lemma validateNIT_cases:
  assumes "tipoDocumento (form w) = 5"
  shows "validateNIT w =
     (if documentoSIN (form w) \<in> set [''99001'', ''99002'', ''99003'']
         \<or> excepcionNIT (form w) = ''true''
      then (nextStep w, None)
      else (w\<lparr>loading := True\<rparr>, Some (documentoSIN (form w))))"
  using assms by (simp add: validateNIT_def Let_def)

lemma validateCurrentStep_billing:
  assumes "currentStep w = 3" and "hasCommissions w"
  shows "fst (validateCurrentStep w)
     = (trim (correoElectronico (form w)) \<noteq> [] \<and> emailRegex_test (correoElectronico (form w))
        \<and> trim (razonSocial (form w)) \<noteq> [] \<and> trim (documentoSIN (form w)) \<noteq> [])"
proof -
  have "hasCommissions (clearErrors w)"
    using assms(2) hasCommissions_cong [of "clearErrors w" w] by (simp add: clearErrors_def)
  then have "hasCommissions (w\<lparr>errors := []\<rparr>)"
    by (simp add: clearErrors_def)
  with assms(1) show ?thesis
    by (simp add: validateCurrentStep_def validateBillingShipping_def Let_def clearErrors_def)
qed

text \<open>
  Claim C5, as amended. On step 3 with commissions and the document type 5 (NIT), the
  field validation of the step passes exactly when the email is not blank and matches the
  address pattern and the business name and the document number are not blank. When it
  fails, \<open>handleNextStep\<close> makes no call and stays on step 3. When it passes, the
  verification call is made if and only if the document number is none of 99001, 99002,
  99003 and the exception flag is not \<open>true\<close>; the call carries the document number
  and the wizard waits on step 3; with a listed number or an accepted exception there is
  no call and the wizard moves to step 4. A verification failure is an answer that does
  not report a valid document: after it the wizard is on step 3 with the exception
  control shown, and once the exception is accepted a new attempt moves to step 4
  without a call; such an answer that arrives when the exception is already accepted
  moves to step 4 at once. When the call itself fails, the error is surfaced, the wizard
  stays on step 3 whatever the exception flag is and the exception control is left as it
  was; a new attempt with the exception accepted moves to step 4 without a call.
\<close>

theorem nit_substep_amended:
  assumes step: "currentStep w = 3" and com: "hasCommissions w"
    and nit: "tipoDocumento (form w) = 5"
  shows "(fst (validateCurrentStep w)
            = (trim (correoElectronico (form w)) \<noteq> []
               \<and> emailRegex_test (correoElectronico (form w))
               \<and> trim (razonSocial (form w)) \<noteq> []
               \<and> trim (documentoSIN (form w)) \<noteq> []))
       \<and> (\<not> fst (validateCurrentStep w) \<longrightarrow>
            snd (handleNextStep w) = None \<and> currentStep (fst (handleNextStep w)) = 3)
       \<and> (fst (validateCurrentStep w) \<longrightarrow>
            ((snd (handleNextStep w) \<noteq> None)
               = (documentoSIN (form w) \<notin> set [''99001'', ''99002'', ''99003'']
                  \<and> excepcionNIT (form w) \<noteq> ''true''))
          \<and> (snd (handleNextStep w) \<noteq> None \<longrightarrow>
                snd (handleNextStep w) = Some (documentoSIN (form w))
              \<and> currentStep (fst (handleNextStep w)) = 3
              \<and> loading (fst (handleNextStep w)))
          \<and> (documentoSIN (form w) \<in> set [''99001'', ''99002'', ''99003'']
               \<or> excepcionNIT (form w) = ''true'' \<longrightarrow>
                snd (handleNextStep w) = None \<and> currentStep (fst (handleNextStep w)) = 4)
          \<and> (\<forall>response.
                envelope_data response \<noteq> Some ''true'' \<and> snd (handleNextStep w) \<noteq> None \<longrightarrow>
                  currentStep (verifyNIT_next response (fst (handleNextStep w))) = 3
                \<and> showExceptionNIT (verifyNIT_next response (fst (handleNextStep w)))
                \<and> snd (handleNextStep
                         (setExceptionNIT ''true''
                            (verifyNIT_next response (fst (handleNextStep w))))) = None
                \<and> currentStep (fst (handleNextStep
                         (setExceptionNIT ''true''
                            (verifyNIT_next response (fst (handleNextStep w)))))) = 4)
          \<and> (\<forall>err.
                snd (handleNextStep w) \<noteq> None \<longrightarrow>
                  currentStep (verifyNIT_error err (fst (handleNextStep w))) = 3
                \<and> \<not> loading (verifyNIT_error err (fst (handleNextStep w)))
                \<and> showExceptionNIT (verifyNIT_error err (fst (handleNextStep w)))
                    = showExceptionNIT w
                \<and> (errors (verifyNIT_error err (fst (handleNextStep w)))
                      = [''Error al validar NIT'']
                    \<or> em_isVisible (errorModal (verifyNIT_error err (fst (handleNextStep w)))))
                \<and> snd (handleNextStep
                         (setExceptionNIT ''true''
                            (verifyNIT_error err (fst (handleNextStep w))))) = None
                \<and> currentStep (fst (handleNextStep
                         (setExceptionNIT ''true''
                            (verifyNIT_error err (fst (handleNextStep w)))))) = 4))
       \<and> (\<forall>response (v :: CheckoutWizard).
            currentStep v = 3 \<and> excepcionNIT (form v) = ''true'' \<longrightarrow>
            currentStep (verifyNIT_next response v) = 4)
       \<and> (\<forall>err (v :: CheckoutWizard).
            currentStep (verifyNIT_error err v) = currentStep v)"
proof (intro conjI impI allI)
  show "fst (validateCurrentStep w)
            = (trim (correoElectronico (form w)) \<noteq> []
               \<and> emailRegex_test (correoElectronico (form w))
               \<and> trim (razonSocial (form w)) \<noteq> []
               \<and> trim (documentoSIN (form w)) \<noteq> [])"
    using step com by (rule validateCurrentStep_billing)
next
  assume "\<not> fst (validateCurrentStep w)"
  then show "snd (handleNextStep w) = None" and "currentStep (fst (handleNextStep w)) = 3"
    using step by (simp_all add: handleNextStep_invalid validateCurrentStep_state)
next
  fix response and v :: CheckoutWizard
  assume "currentStep v = 3 \<and> excepcionNIT (form v) = ''true''"
  then show "currentStep (verifyNIT_next response v) = 4"
    by (simp add: verifyNIT_next_def Let_def nextStep_def clearErrors_def totalSteps_def
          addError_def)
next
  fix err and v :: CheckoutWizard
  show "currentStep (verifyNIT_error err v) = currentStep v"
    by (simp add: verifyNIT_error_def)
next
  assume valid: "fst (validateCurrentStep w)"
  have nit': "tipoDocumento (form (clearErrors w)) = 5" and step': "currentStep (clearErrors w) = 3"
    using nit step by (simp_all add: clearErrors_def)
  have run: "handleNextStep w =
     (if documentoSIN (form w) \<in> set [''99001'', ''99002'', ''99003'']
         \<or> excepcionNIT (form w) = ''true''
      then (nextStep (clearErrors w), None)
      else ((clearErrors w)\<lparr>loading := True\<rparr>, Some (documentoSIN (form w))))"
    unfolding handleNextStep_nit [OF step com nit valid] validateNIT_cases [OF nit']
    by (simp add: clearErrors_def)
  have retry: "snd (handleNextStep (setExceptionNIT ''true'' v)) = None
      \<and> currentStep (fst (handleNextStep (setExceptionNIT ''true'' v))) = 4"
    if same: "currentStep v = 3" "itemsCart v = itemsCart w" "form v = form w"
    for v :: CheckoutWizard
  proof -
    let ?r = "setExceptionNIT ''true'' v"
    have r_step: "currentStep ?r = 3" and r_nit: "tipoDocumento (form ?r) = 5"
      and r_exc: "excepcionNIT (form ?r) = ''true''"
      and r_items: "itemsCart ?r = itemsCart w"
      using same nit by (simp_all add: setExceptionNIT_def)
    have r_com: "hasCommissions ?r"
      using com hasCommissions_cong [OF r_items] by simp
    have r_valid: "fst (validateCurrentStep ?r)"
      using valid
      by (subst validateCurrentStep_cong [of _ w])
         (simp_all add: setExceptionNIT_def same step)
    have r_run: "handleNextStep ?r = (nextStep (clearErrors ?r), None)"
      unfolding handleNextStep_nit [OF r_step r_com r_nit r_valid]
      using r_nit r_exc by (simp add: validateNIT_def Let_def clearErrors_def)
    have r4: "currentStep (nextStep (clearErrors ?r)) = 4"
      by (rule nextStep_from_3) (simp only: currentStep_clearErrors r_step)
    show ?thesis
      unfolding r_run using r4 by simp
  qed
  show "(snd (handleNextStep w) \<noteq> None)
               = (documentoSIN (form w) \<notin> set [''99001'', ''99002'', ''99003'']
                  \<and> excepcionNIT (form w) \<noteq> ''true'')"
    by (simp add: run)
  {
    assume "snd (handleNextStep w) \<noteq> None"
    then show "snd (handleNextStep w) = Some (documentoSIN (form w))"
      and "currentStep (fst (handleNextStep w)) = 3"
      and "loading (fst (handleNextStep w))"
      using step' by (simp_all add: run split: if_splits)
  }
  {
    assume "documentoSIN (form w) \<in> set [''99001'', ''99002'', ''99003'']
               \<or> excepcionNIT (form w) = ''true''"
    then show "snd (handleNextStep w) = None" and "currentStep (fst (handleNextStep w)) = 4"
      using nextStep_from_3 [OF step'] by (simp_all add: run)
  }
  {
    fix response :: "NITResponse option"
    assume fail: "envelope_data response \<noteq> Some ''true'' \<and> snd (handleNextStep w) \<noteq> None"
    then have called: "documentoSIN (form w) \<notin> set [''99001'', ''99002'', ''99003'']"
        "excepcionNIT (form w) \<noteq> ''true''"
      by (simp_all add: run split: if_splits)
    let ?w1 = "(clearErrors w)\<lparr>loading := True\<rparr>"
    let ?v = "verifyNIT_next response ?w1"
    have w1: "fst (handleNextStep w) = ?w1"
      using called by (simp add: run)
    have v: "?v = (addError
                     ''NIT invalido. Confirme si se realiza Excepcion de registro con ese NIT''
                     (?w1\<lparr>showExceptionNIT := True\<rparr>))\<lparr>loading := False\<rparr>"
      using fail called
      by (simp add: verifyNIT_next_def Let_def addError_def clearErrors_def)
    show "currentStep (verifyNIT_next response (fst (handleNextStep w))) = 3"
      and "showExceptionNIT (verifyNIT_next response (fst (handleNextStep w)))"
      unfolding w1 v using step by (simp_all add: addError_def clearErrors_def)
    have "currentStep ?v = 3" "itemsCart ?v = itemsCart w" "form ?v = form w"
      unfolding v using step by (simp_all add: addError_def clearErrors_def)
    from retry [OF this]
    show "snd (handleNextStep
                           (setExceptionNIT ''true''
                              (verifyNIT_next response (fst (handleNextStep w))))) = None"
      and "currentStep (fst (handleNextStep
                           (setExceptionNIT ''true''
                              (verifyNIT_next response (fst (handleNextStep w)))))) = 4"
      unfolding w1 by simp_all
  }
  {
    fix err
    assume "snd (handleNextStep w) \<noteq> None"
    then have called: "documentoSIN (form w) \<notin> set [''99001'', ''99002'', ''99003'']"
        "excepcionNIT (form w) \<noteq> ''true''"
      by (simp_all add: run split: if_splits)
    let ?w1 = "(clearErrors w)\<lparr>loading := True\<rparr>"
    let ?v = "verifyNIT_error err ?w1"
    have w1: "fst (handleNextStep w) = ?w1"
      using called by (simp add: run)
    have same: "currentStep ?v = 3" "itemsCart ?v = itemsCart w" "form ?v = form w"
      using step by (simp_all add: verifyNIT_error_def clearErrors_def)
    show "currentStep (verifyNIT_error err (fst (handleNextStep w))) = 3"
      unfolding w1 by (rule same)
    show "\<not> loading (verifyNIT_error err (fst (handleNextStep w)))"
      unfolding w1 by (simp add: verifyNIT_error_def)
    show "showExceptionNIT (verifyNIT_error err (fst (handleNextStep w))) = showExceptionNIT w"
      unfolding w1
      by (simp add: verifyNIT_error_def handleApiError_def addError_def clearErrors_def
            case_prod_beta Let_def)
    show "errors (verifyNIT_error err (fst (handleNextStep w))) = [''Error al validar NIT'']
          \<or> em_isVisible (errorModal (verifyNIT_error err (fst (handleNextStep w))))"
      unfolding w1
      using surfaced_handleApiError [of err "''Error al validar NIT''" ?w1]
      by (auto simp: verifyNIT_error_def clearErrors_def)
    from retry [OF same]
    show "snd (handleNextStep
                           (setExceptionNIT ''true''
                              (verifyNIT_error err (fst (handleNextStep w))))) = None"
      and "currentStep (fst (handleNextStep
                           (setExceptionNIT ''true''
                              (verifyNIT_error err (fst (handleNextStep w)))))) = 4"
      unfolding w1 by simp_all
  }
qed

lemma example_checkout_fields:
  "currentStep (example_checkout step frm) = step"
  "form (example_checkout step frm) = frm"
  "itemsCart (example_checkout step frm) = [example_item ''Bs.'' ''CT-1'']"
  "errors (example_checkout step frm) = []"
  by (simp_all add: example_checkout_def)

lemma example_hasCommissions: "hasCommissions (example_checkout step frm)"
  by (simp add: hasCommissions_def totalCommissions_def example_checkout_fields
        example_item_def example_item_json_def toDecimalPlaces2_def)

lemma example_validation:
  "fst (validateCurrentStep (example_checkout 3 (example_form ''ana@example.org'' doc exc)))
     = (trim doc \<noteq> [])"
  "\<not> fst (validateCurrentStep (example_checkout 3 (example_form [] doc exc)))"
  "\<not> fst (validateCurrentStep (example_checkout 3 (example_form ''not-an-email'' doc exc)))"
proof -
  have com: "hasCommissions (clearErrors (example_checkout 3 frm))" for frm
    using example_hasCommissions [of 3 frm]
      hasCommissions_cong [of "clearErrors (example_checkout 3 frm)" "example_checkout 3 frm"]
    by (simp add: clearErrors_def)
  have mail: "emailRegex_test ''ana@example.org''" "\<not> emailRegex_test ''not-an-email''"
    by (simp_all add: emailRegex_test_def leading_space_def white_space_def)
  have t: "trim ''ana@example.org'' \<noteq> []" "trim ''not-an-email'' \<noteq> []" "trim [] = []"
    "trim ''ACME SRL'' \<noteq> []"
    by (simp_all add: trim_def strip.simps leading_space_def white_space_def)
  have f: "correoElectronico (form (clearErrors (example_checkout 3 (example_form m doc exc)))) = m"
    "razonSocial (form (clearErrors (example_checkout 3 (example_form m doc exc)))) = ''ACME SRL''"
    "documentoSIN (form (clearErrors (example_checkout 3 (example_form m doc exc)))) = doc"
    "currentStep (clearErrors (example_checkout 3 (example_form m doc exc))) = 3" for m
    by (simp_all add: clearErrors_def example_checkout_fields example_form_def)
  show "fst (validateCurrentStep (example_checkout 3 (example_form ''ana@example.org'' doc exc)))
     = (trim doc \<noteq> [])"
    by (simp add: validateCurrentStep_def validateBillingShipping_def Let_def f com mail t)
  show "\<not> fst (validateCurrentStep (example_checkout 3 (example_form [] doc exc)))"
    by (simp add: validateCurrentStep_def validateBillingShipping_def Let_def f t)
  show "\<not> fst (validateCurrentStep (example_checkout 3 (example_form ''not-an-email'' doc exc)))"
    by (simp add: validateCurrentStep_def validateBillingShipping_def Let_def f mail t)
qed

text \<open>
  Claim C5 as stated fails: with an empty email the document number 12345678 is not
  listed and the exception is not accepted, yet no verification call is made; with a
  malformed email and the listed number 99002 the wizard does not advance.
\<close>

theorem nit_substep_counterexample:
  "currentStep (example_checkout 3 (example_form [] ''12345678'' ''false'')) = 3
   \<and> hasCommissions (example_checkout 3 (example_form [] ''12345678'' ''false''))
   \<and> tipoDocumento (form (example_checkout 3 (example_form [] ''12345678'' ''false''))) = 5
   \<and> documentoSIN (form (example_checkout 3 (example_form [] ''12345678'' ''false'')))
       \<notin> set [''99001'', ''99002'', ''99003'']
   \<and> excepcionNIT (form (example_checkout 3 (example_form [] ''12345678'' ''false'')))
       \<noteq> ''true''
   \<and> snd (handleNextStep (example_checkout 3 (example_form [] ''12345678'' ''false''))) = None
   \<and> documentoSIN (form (example_checkout 3 (example_form ''not-an-email'' ''99002'' ''false'')))
       \<in> set [''99001'', ''99002'', ''99003'']
   \<and> snd (handleNextStep
        (example_checkout 3 (example_form ''not-an-email'' ''99002'' ''false''))) = None
   \<and> currentStep (fst (handleNextStep
        (example_checkout 3 (example_form ''not-an-email'' ''99002'' ''false'')))) = 3"
  using example_hasCommissions [of 3 "example_form [] ''12345678'' ''false''"]
  by (simp add: handleNextStep_invalid example_validation validateCurrentStep_state
        example_checkout_fields)
     (simp add: example_form_def)

theorem nit_substep_amended_witness:
  "currentStep (example_checkout 3 (example_form ''ana@example.org'' ''12345678'' ''false'')) = 3
   \<and> hasCommissions (example_checkout 3 (example_form ''ana@example.org'' ''12345678'' ''false''))
   \<and> tipoDocumento (form (example_checkout 3
        (example_form ''ana@example.org'' ''12345678'' ''false''))) = 5
   \<and> fst (validateCurrentStep (example_checkout 3
        (example_form ''ana@example.org'' ''12345678'' ''false'')))
   \<and> snd (handleNextStep (example_checkout 3
        (example_form ''ana@example.org'' ''12345678'' ''false''))) = Some ''12345678''
   \<and> currentStep (fst (handleNextStep (setExceptionNIT ''true''
        (verifyNIT_next (Some \<lparr>success = True, data = Some ''false''\<rparr>)
           (fst (handleNextStep (example_checkout 3
              (example_form ''ana@example.org'' ''12345678'' ''false'')))))))) = 4
   \<and> currentStep (verifyNIT_error (HttpErrorResponse None)
        (fst (handleNextStep (example_checkout 3
           (example_form ''ana@example.org'' ''12345678'' ''false''))))) = 3
   \<and> currentStep (fst (handleNextStep (setExceptionNIT ''true''
        (verifyNIT_error (HttpErrorResponse None)
           (fst (handleNextStep (example_checkout 3
              (example_form ''ana@example.org'' ''12345678'' ''false'')))))))) = 4
   \<and> snd (handleNextStep (example_checkout 3
        (example_form ''ana@example.org'' ''99002'' ''false''))) = None
   \<and> currentStep (fst (handleNextStep (example_checkout 3
        (example_form ''ana@example.org'' ''99002'' ''false'')))) = 4
   \<and> \<not> fst (validateCurrentStep (example_checkout 3
        (example_form [] ''12345678'' ''false'')))
   \<and> currentStep (fst (handleNextStep (example_checkout 3
        (example_form [] ''12345678'' ''false'')))) = 3
   \<and> trim [CHR 0xC2, CHR 0xA0] = []
   \<and> \<not> fst (validateCurrentStep (example_checkout 3
        (example_form [CHR 0xC2, CHR 0xA0] ''12345678'' ''false'')))
   \<and> snd (handleNextStep (example_checkout 3
        (example_form [CHR 0xC2, CHR 0xA0] ''12345678'' ''false''))) = None
   \<and> \<not> fst (validateCurrentStep (example_checkout 3
        (example_form blank_text ''12345678'' ''false'')))
   \<and> \<not> fst (validateCurrentStep (example_checkout 3
        (example_form (''ana'' @ [CHR 0xC2, CHR 0xA0] @ ''@example.org'') ''12345678''
           ''false'')))
   \<and> snd (handleNextStep (example_checkout 3
        (example_form (''ana'' @ [CHR 0xC2, CHR 0xA0] @ ''@example.org'') ''12345678''
           ''false''))) = None"
proof -
  let ?w = "example_checkout 3 (example_form ''ana@example.org'' ''12345678'' ''false'')"
  let ?a = "example_checkout 3 (example_form ''ana@example.org'' ''99002'' ''false'')"
  let ?e = "example_checkout 3 (example_form [] ''12345678'' ''false'')"
  let ?n = "example_checkout 3 (example_form [CHR 0xC2, CHR 0xA0] ''12345678'' ''false'')"
  have step: "currentStep (example_checkout 3 frm) = 3" for frm
    by (simp add: example_checkout_fields)
  have nit: "tipoDocumento (form (example_checkout 3 (example_form m doc exc))) = 5" for m doc exc
    by (simp add: example_checkout_fields example_form_def)
  have valid: "fst (validateCurrentStep ?w)" "fst (validateCurrentStep ?a)"
    "\<not> fst (validateCurrentStep ?e)"
    by (simp_all add: example_validation trim_def strip.simps leading_space_def white_space_def)
  have docs: "documentoSIN (form ?w) = ''12345678''" "excepcionNIT (form ?w) = ''false''"
    "documentoSIN (form ?a) = ''99002''"
    by (simp_all add: example_checkout_fields example_form_def)
  have resp: "envelope_data (Some \<lparr>success = True, data = Some ''false''\<rparr>) \<noteq> Some ''true''"
    by (simp add: envelope_data_def)
  have nbsp: "trim [CHR 0xC2, CHR 0xA0] = []"
    by (simp add: trim_def strip.simps leading_space_def white_space_def)
  have mail: "correoElectronico (form ?n) = [CHR 0xC2, CHR 0xA0]"
    by (simp add: example_checkout_fields example_form_def)
  note w = nit_substep_amended [OF step example_hasCommissions nit,
      of "''ana@example.org''" "''12345678''" "''false''"]
  note a = nit_substep_amended [OF step example_hasCommissions nit,
      of "''ana@example.org''" "''99002''" "''false''"]
  note e = nit_substep_amended [OF step example_hasCommissions nit,
      of "[]" "''12345678''" "''false''"]
  note n = nit_substep_amended [OF step example_hasCommissions nit,
      of "[CHR 0xC2, CHR 0xA0]" "''12345678''" "''false''"]
  from w valid(1) docs have called: "snd (handleNextStep ?w) = Some ''12345678''"
    by simp
  from w valid(1) called resp
  have retry: "currentStep (fst (handleNextStep (setExceptionNIT ''true''
        (verifyNIT_next (Some \<lparr>success = True, data = Some ''false''\<rparr>)
           (fst (handleNextStep ?w)))))) = 4"
    by simp
  from w valid(1) called
  have down: "currentStep (verifyNIT_error (HttpErrorResponse None)
                 (fst (handleNextStep ?w))) = 3"
    "currentStep (fst (handleNextStep (setExceptionNIT ''true''
        (verifyNIT_error (HttpErrorResponse None) (fst (handleNextStep ?w)))))) = 4"
    by simp_all
  from a valid(2) docs have allowed: "snd (handleNextStep ?a) = None"
    "currentStep (fst (handleNextStep ?a)) = 4"
    by simp_all
  from e valid(3) have blocked: "currentStep (fst (handleNextStep ?e)) = 3"
    by simp
  from n nbsp mail have blank: "\<not> fst (validateCurrentStep ?n)"
    by simp
  with n have blank_call: "snd (handleNextStep ?n) = None"
    by simp
  let ?all = "example_checkout 3 (example_form blank_text ''12345678'' ''false'')"
  let ?in = "example_checkout 3
      (example_form (''ana'' @ [CHR 0xC2, CHR 0xA0] @ ''@example.org'') ''12345678'' ''false'')"
  have mail_all: "correoElectronico (form ?all) = blank_text"
    and mail_in: "correoElectronico (form ?in) = ''ana'' @ [CHR 0xC2, CHR 0xA0] @ ''@example.org''"
    by (simp_all add: example_checkout_fields example_form_def)
  have inner: "\<not> emailRegex_test (''ana'' @ [CHR 0xC2, CHR 0xA0] @ ''@example.org'')"
    by (simp add: emailRegex_test_def leading_space_def white_space_def)
  from nit_substep_amended [OF step example_hasCommissions nit,
      of blank_text "''12345678''" "''false''"] mail_all trim_blank_text
  have all_blank: "\<not> fst (validateCurrentStep ?all)"
    by simp
  note i = nit_substep_amended [OF step example_hasCommissions nit,
      of "''ana'' @ [CHR 0xC2, CHR 0xA0] @ ''@example.org''" "''12345678''" "''false''"]
  from i mail_in inner have spaced: "\<not> fst (validateCurrentStep ?in)"
    by simp
  with i have spaced_call: "snd (handleNextStep ?in) = None"
    by simp
  from step example_hasCommissions nit valid called retry down allowed blocked nbsp blank
    blank_call all_blank spaced spaced_call
  show ?thesis by simp
qed

end
